theory Spec2Isabelle
  imports Complex_Main
begin

section \<open>Strings\<close>

text \<open>
  A Python \<open>str\<close> is modelled as a \<open>string\<close> whose characters are the code points
  U+0000 to U+00FF, one \<open>char\<close> per code point, so that \<open>length\<close> is Python's
  \<open>len\<close>. Every character of the tables of the source lies in this range. The
  accented letters the tables use are named here.
\<close>

abbreviation a_acute :: char where "a_acute \<equiv> CHR 0xE1"
abbreviation a_circ :: char where "a_circ \<equiv> CHR 0xE2"
abbreviation a_tilde :: char where "a_tilde \<equiv> CHR 0xE3"
abbreviation c_cedil :: char where "c_cedil \<equiv> CHR 0xE7"
abbreviation e_acute :: char where "e_acute \<equiv> CHR 0xE9"
abbreviation e_circ :: char where "e_circ \<equiv> CHR 0xEA"
abbreviation i_acute :: char where "i_acute \<equiv> CHR 0xED"
abbreviation o_acute :: char where "o_acute \<equiv> CHR 0xF3"
abbreviation o_circ :: char where "o_circ \<equiv> CHR 0xF4"
abbreviation o_tilde :: char where "o_tilde \<equiv> CHR 0xF5"
abbreviation newline :: char where "newline \<equiv> CHR 0x0A"

text \<open>\<open>str.lower\<close> on one code point: A-Z and U+00C0..U+00DE without U+00D7.\<close>

definition lower_char :: "char \<Rightarrow> char" where
  "lower_char c =
     (let n = (of_char c :: nat)
      in if (65 \<le> n \<and> n \<le> 90) \<or> (192 \<le> n \<and> n \<le> 222 \<and> n \<noteq> 215)
         then char_of (n + 32) else c)"

definition lower :: "string \<Rightarrow> string" where
  "lower s = map lower_char s"

text \<open>\<open>str.isspace\<close>, which is also the class \<open>\s\<close> of \<open>re\<close>.\<close>

definition is_space :: "char \<Rightarrow> bool" where
  "is_space c =
     (let n = (of_char c :: nat)
      in (9 \<le> n \<and> n \<le> 13) \<or> (28 \<le> n \<and> n \<le> 32) \<or> n = 133 \<or> n = 160)"

definition is_digit :: "char \<Rightarrow> bool" where
  "is_digit c = (let n = (of_char c :: nat) in 48 \<le> n \<and> n \<le> 57)"

text \<open>The class \<open>\w\<close> of \<open>re\<close>: \<open>str.isalnum\<close> or the underscore.\<close>

definition is_word :: "char \<Rightarrow> bool" where
  "is_word c =
     (let n = (of_char c :: nat)
      in (48 \<le> n \<and> n \<le> 57) \<or> (65 \<le> n \<and> n \<le> 90) \<or> n = 95 \<or> (97 \<le> n \<and> n \<le> 122)
         \<or> n = 170 \<or> n = 178 \<or> n = 179 \<or> n = 181 \<or> n = 185 \<or> n = 186
         \<or> (188 \<le> n \<and> n \<le> 190) \<or> (192 \<le> n \<and> n \<noteq> 215 \<and> n \<noteq> 247))"

text \<open>
  The same two functions on the eight bits of a character, lowest bit first. These
  equations are what evaluation uses; they are proved from the definitions above.
\<close>

lemma lower_char_Char [code]:
  "lower_char (Char b0 b1 b2 b3 b4 b5 b6 b7) =
     Char b0 b1 b2 b3 b4
       (b5 \<or> (b6 \<and> (if b7 then \<not> (b4 \<and> b2 \<and> b1 \<and> b0)
                        else (b4 \<or> b3 \<or> b2 \<or> b1 \<or> b0) \<and> \<not> (b4 \<and> b3 \<and> (b2 \<or> (b1 \<and> b0))))))
       b6 b7"
  by (cases b7; cases b6; cases b5; cases b4; cases b3; cases b2; cases b1; cases b0;
      simp only: simp_thms if_True if_False; code_simp)

lemma is_word_Char [code]:
  "is_word (Char b0 b1 b2 b3 b4 b5 b6 b7) =
     (if b7 then
        (if b6 then \<not> (b4 \<and> \<not> b3 \<and> b2 \<and> b1 \<and> b0)
         else b5 \<and> (if b4 then (b3 \<and> (b1 \<noteq> b0 \<or> (b2 \<and> \<not> b1)))
                           \<or> (\<not> b3 \<and> ((\<not> b2 \<and> b1) \<or> (b2 \<and> \<not> b1 \<and> b0)))
                   else b3 \<and> \<not> b2 \<and> b1 \<and> \<not> b0))
      else
        (if b6 then (if b4 then \<not> (b3 \<and> (b2 \<or> (b1 \<and> b0))) \<or> (\<not> b5 \<and> b3 \<and> b2 \<and> b1 \<and> b0)
                     else b3 \<or> b2 \<or> b1 \<or> b0)
         else b5 \<and> b4 \<and> \<not> (b3 \<and> (b2 \<or> b1))))"
  by (cases b7; cases b6; cases b5; cases b4; cases b3; cases b2; cases b1; cases b0;
      simp only: simp_thms if_True if_False; code_simp)

definition strip :: "string \<Rightarrow> string" where
  "strip s = rev (dropWhile is_space (rev (dropWhile is_space s)))"

text \<open>\<open>sub in s\<close> on strings: \<open>sub\<close> occurs in \<open>s\<close> as a contiguous block.\<close>

fun starts_with :: "string \<Rightarrow> string \<Rightarrow> bool" where
  "starts_with s [] = True"
| "starts_with [] (p # ps) = False"
| "starts_with (c # cs) (p # ps) = (c = p \<and> starts_with cs ps)"

fun contains :: "string \<Rightarrow> string \<Rightarrow> bool" where
  "contains [] sub = (sub = [])"
| "contains (c # cs) sub = (starts_with (c # cs) sub \<or> contains cs sub)"

section \<open>The catalog (models/books.py, services/book_service.py)\<close>

record book =
  book_id :: int
  title :: string
  author :: string
  genre :: string
  year :: int
  bestseller :: bool
  description :: string
  rating :: real

text \<open>A \<open>BookService\<close> is its list \<open>self.books\<close>, in catalog order.\<close>

definition get_books_by_genre :: "book list \<Rightarrow> string \<Rightarrow> book list" where
  "get_books_by_genre books g = filter (\<lambda>b. lower (genre b) = lower g) books"

definition get_books_by_author :: "book list \<Rightarrow> string \<Rightarrow> book list" where
  "get_books_by_author books a = filter (\<lambda>b. contains (lower (author b)) (lower a)) books"

definition get_books_by_year :: "book list \<Rightarrow> int \<Rightarrow> book list" where
  "get_books_by_year books y = filter (\<lambda>b. year b = y) books"

definition get_bestsellers :: "book list \<Rightarrow> bool \<Rightarrow> book list" where
  "get_bestsellers books is_bestseller = filter (\<lambda>b. bestseller b = is_bestseller) books"

fun find_book_by_title :: "book list \<Rightarrow> string \<Rightarrow> book option" where
  "find_book_by_title [] t = None"
| "find_book_by_title (b # books) t =
     (if contains (lower (title b)) (lower t) then Some b else find_book_by_title books t)"

section \<open>The recommendation engine (services/recommendation_engine.py)\<close>

text \<open>
  \<open>sorted(books, key=lambda x: x.rating, reverse=True)\<close>: Python's sort is stable, also
  with \<open>reverse=True\<close>, so books of equal rating keep their order. Ratings are reals:
  the model has no NaN.
\<close>

definition sorted_by_rating :: "book list \<Rightarrow> book list" where
  "sorted_by_rating books = sort_key (\<lambda>b. - rating b) books"

text \<open>The slice \<open>xs[:limit]\<close>; a negative limit counts from the end.\<close>

definition slice_to :: "'a list \<Rightarrow> int \<Rightarrow> 'a list" where
  "slice_to xs limit =
     (if 0 \<le> limit then take (nat limit) xs else take (nat (int (length xs) + limit)) xs)"

definition recommend_by_genre :: "book list \<Rightarrow> string \<Rightarrow> int \<Rightarrow> book list" where
  "recommend_by_genre books g limit = slice_to (sorted_by_rating (get_books_by_genre books g)) limit"

definition recommend_by_author :: "book list \<Rightarrow> string \<Rightarrow> int \<Rightarrow> book list" where
  "recommend_by_author books a limit =
     slice_to (sorted_by_rating (get_books_by_author books a)) limit"

definition recommend_similar_books :: "book list \<Rightarrow> string \<Rightarrow> int \<Rightarrow> book list" where
  "recommend_similar_books books book_title limit =
     (case find_book_by_title books book_title of
        None \<Rightarrow> []
      | Some target_book \<Rightarrow>
          (let similar_books = get_books_by_genre books (genre target_book);
               similar_books = filter (\<lambda>b. book_id b \<noteq> book_id target_book) similar_books;
               same_author_books = filter (\<lambda>b. author b = author target_book) similar_books;
               other_books = filter (\<lambda>b. author b \<noteq> author target_book) similar_books;
               recommended = same_author_books @ other_books
           in slice_to (sorted_by_rating recommended) limit))"

definition recommend_by_year :: "book list \<Rightarrow> int \<Rightarrow> int \<Rightarrow> book list" where
  "recommend_by_year books y limit = slice_to (sorted_by_rating (get_books_by_year books y)) limit"

definition recommend_bestsellers :: "book list \<Rightarrow> bool \<Rightarrow> int \<Rightarrow> book list" where
  "recommend_bestsellers books is_bestseller limit =
     slice_to (sorted_by_rating (get_bestsellers books is_bestseller)) limit"

text \<open>The table local to \<open>recommend_by_mood\<close>, with its default \<open>Romance\<close>.\<close>

definition mood_to_genre_map :: "(string \<times> string) list" where
  "mood_to_genre_map =
     [(''triste'', ''Romance''), (''deprimido'', ''Romance''), (''estressado'', ''Romance''),
      (''ansioso'', ''Romance''), (''feliz'', ''Thriller''), (''animado'', ''Thriller''),
      (''relaxar'', ''Romance''),
      (''inspirar'', ''Fic'' @ [c_cedil, a_tilde] @ ''o Cient'' @ [i_acute] @ ''fica'')]"

definition negative_moods :: "string list" where
  "negative_moods = [''triste'', ''deprimido'', ''estressado'', ''ansioso'', ''mal'']"

definition relaxing_occasions :: "string list" where
  "relaxing_occasions = [''praia'', ''f'' @ [e_acute] @ ''rias'', ''viagem'', ''relaxar'']"

text \<open>\<open>not target_genre\<close> holds for \<open>None\<close> and for the empty string.\<close>

definition recommend_by_mood :: "book list \<Rightarrow> string \<Rightarrow> string option \<Rightarrow> int \<Rightarrow> book list" where
  "recommend_by_mood books mood target_genre limit =
     (let target =
            (case target_genre of
               Some g \<Rightarrow> if g \<noteq> [] then g
                         else (case map_of mood_to_genre_map (lower mood) of
                                 Some g' \<Rightarrow> g' | None \<Rightarrow> ''Romance'')
             | None \<Rightarrow> (case map_of mood_to_genre_map (lower mood) of
                          Some g' \<Rightarrow> g' | None \<Rightarrow> ''Romance''));
          books1 = get_books_by_genre books target;
          books2 = (if lower mood \<in> set negative_moods
                    then filter (\<lambda>b. 4.0 \<le> rating b) books1 else books1)
      in slice_to (sorted_by_rating books2) limit)"

definition recommend_by_occasion :: "book list \<Rightarrow> string \<Rightarrow> string option \<Rightarrow> int \<Rightarrow> book list" where
  "recommend_by_occasion books occasion target_genre limit =
     (let target =
            (case target_genre of
               Some g \<Rightarrow> if g \<noteq> [] then g else ''Romance''
             | None \<Rightarrow> ''Romance'');
          books1 = get_books_by_genre books target;
          books2 = (if lower occasion \<in> set relaxing_occasions
                    then filter (\<lambda>b. 3.5 \<le> rating b) books1 else books1)
      in slice_to (sorted_by_rating books2) limit)"

text \<open>A list is in descending order of rating.\<close>

definition rating_descending :: "book list \<Rightarrow> bool" where
  "rating_descending bs = sorted_wrt (\<lambda>a b. rating b \<le> rating a) bs"

section \<open>Regular expressions: the fragment of Python's \<open>re\<close> that the tables use\<close>

text \<open>
  All patterns of the source are compiled with \<open>re.IGNORECASE\<close>, so literal text and
  character sets compare lower-cased characters. \<open>AnyC\<close> is the dot, which does not
  match a newline. Repetition is applied to single characters only, as in the tables.
\<close>

datatype cclass = OneOf "char list" | WordC | DigitC | SpaceC | AnyC

datatype regex =
    Str string
  | Atom cclass
  | Plus cclass
  | PlusLazy cclass
  | Rep nat nat cclass
  | Opt regex
  | Cat regex regex
  | Alt regex regex
  | Group nat regex
  | Eos
  | WordB

fun cat :: "regex list \<Rightarrow> regex" where
  "cat [] = Str []"
| "cat [r] = r"
| "cat (r # rs) = Cat r (cat rs)"

fun one_of :: "string list \<Rightarrow> regex" where
  "one_of [] = Atom (OneOf [])"
| "one_of [s] = Str s"
| "one_of (s # ss) = Alt (Str s) (one_of ss)"

fun ngroups :: "regex \<Rightarrow> nat" where
  "ngroups (Opt r) = ngroups r"
| "ngroups (Cat r1 r2) = ngroups r1 + ngroups r2"
| "ngroups (Alt r1 r2) = ngroups r1 + ngroups r2"
| "ngroups (Group i r) = Suc (ngroups r)"
| "ngroups _ = 0"

fun cmatch :: "cclass \<Rightarrow> char \<Rightarrow> bool" where
  "cmatch (OneOf cs) x = (lower_char x \<in> set (map lower_char cs))"
| "cmatch WordC x = is_word x"
| "cmatch DigitC x = is_digit x"
| "cmatch SpaceC x = is_space x"
| "cmatch AnyC x = (x \<noteq> newline)"

text \<open>
  A cursor is a position in the text: its index, the character before it (for \<open>\b\<close>)
  and the text from it on. A matcher state adds the groups captured so far, the most
  recent first.
\<close>

type_synonym cursor = "nat \<times> char option \<times> string"
type_synonym mstate = "cursor \<times> (nat \<times> string) list"

fun lit_match :: "string \<Rightarrow> cursor \<Rightarrow> cursor option" where
  "lit_match [] cur = Some cur"
| "lit_match (p # ps) (pos, prev, []) = None"
| "lit_match (p # ps) (pos, prev, c # cs) =
     (if lower_char c = lower_char p then lit_match ps (Suc pos, Some c, cs) else None)"

text \<open>The cursors after one, two, ... characters of a class, as far as the class matches.\<close>

fun runs :: "cclass \<Rightarrow> cursor \<Rightarrow> cursor list" where
  "runs k (pos, prev, []) = []"
| "runs k (pos, prev, c # cs) =
     (if cmatch k c then (Suc pos, Some c, cs) # runs k (Suc pos, Some c, cs) else [])"

definition at_boundary :: "cursor \<Rightarrow> bool" where
  "at_boundary cur =
     (case cur of (pos, prev, rest) \<Rightarrow>
        (case prev of None \<Rightarrow> False | Some c \<Rightarrow> is_word c)
        \<noteq> (case rest of [] \<Rightarrow> False | c # cs \<Rightarrow> is_word c))"

text \<open>
  \<open>rmatch r st\<close> lists every way \<open>r\<close> matches at \<open>st\<close>, in the order in which the
  backtracking matcher of \<open>re\<close> tries them: greedy repetition longest first, lazy
  repetition shortest first, the left alternative first. The match that \<open>re\<close> reports at a
  start position is the head of the list.
\<close>

fun rmatch :: "regex \<Rightarrow> mstate \<Rightarrow> mstate list" where
  "rmatch (Str s) (cur, g) = (case lit_match s cur of None \<Rightarrow> [] | Some cur' \<Rightarrow> [(cur', g)])"
| "rmatch (Atom k) ((pos, prev, rest), g) =
     (case rest of
        [] \<Rightarrow> []
      | c # cs \<Rightarrow> if cmatch k c then [((Suc pos, Some c, cs), g)] else [])"
| "rmatch (Plus k) (cur, g) = map (\<lambda>c. (c, g)) (rev (runs k cur))"
| "rmatch (PlusLazy k) (cur, g) = map (\<lambda>c. (c, g)) (runs k cur)"
| "rmatch (Rep m n k) (cur, g) = map (\<lambda>c. (c, g)) (rev (drop m (take (Suc n) (cur # runs k cur))))"
| "rmatch (Opt r) st = rmatch r st @ [st]"
| "rmatch (Cat r1 r2) st = concat (map (rmatch r2) (rmatch r1 st))"
| "rmatch (Alt r1 r2) st = rmatch r1 st @ rmatch r2 st"
| "rmatch (Group i r) ((pos, prev, rest), g) =
     map (\<lambda>((pos', prev', rest'), g'). ((pos', prev', rest'), (i, take (pos' - pos) rest) # g'))
       (rmatch r ((pos, prev, rest), g))"
| "rmatch Eos ((pos, prev, rest), g) =
     (if rest = [] \<or> rest = [newline] then [((pos, prev, rest), g)] else [])"
| "rmatch WordB (cur, g) = (if at_boundary cur then [(cur, g)] else [])"

text \<open>A match object: \<open>start()\<close>, \<open>group(0)\<close> and the groups that took part.\<close>

record rematch =
  m_start :: nat
  group0 :: string
  m_groups :: "(nat \<times> string) list"

definition match_group :: "rematch \<Rightarrow> nat \<Rightarrow> string option" where
  "match_group m i = map_of (m_groups m) i"

definition match_at :: "regex \<Rightarrow> cursor \<Rightarrow> rematch option" where
  "match_at r cur =
     (case cur of (pos, prev, rest) \<Rightarrow>
        (case rmatch r (cur, []) of
           [] \<Rightarrow> None
         | ((pos', prev', rest'), g) # others \<Rightarrow>
             Some \<lparr>m_start = pos, group0 = take (pos' - pos) rest, m_groups = g\<rparr>))"

text \<open>\<open>re.search\<close>: the first start position, from the left, with a match.\<close>

fun search_from :: "regex \<Rightarrow> cursor \<Rightarrow> rematch option" where
  "search_from r (pos, prev, []) = match_at r (pos, prev, [])"
| "search_from r (pos, prev, c # cs) =
     (case match_at r (pos, prev, c # cs) of
        Some m \<Rightarrow> Some m
      | None \<Rightarrow> search_from r (Suc pos, Some c, cs))"

definition re_search :: "regex \<Rightarrow> string \<Rightarrow> rematch option" where
  "re_search r text = search_from r (0, None, text)"

text \<open>
  \<open>re.sub\<close> with a replacement that has no escapes: the matches are replaced from left
  to right, without overlap. After an empty match the next match at the same place must
  be non-empty (Python 3.7 and later). \<open>sub_walk\<close> goes through the text one character
  at a time; its last argument counts the characters of the current match still to skip.
\<close>

definition nonempty_match_at :: "regex \<Rightarrow> cursor \<Rightarrow> nat option" where
  "nonempty_match_at r cur =
     (case cur of (pos, prev, rest) \<Rightarrow>
        (case filter (\<lambda>((pos', prev', rest'), g). pos' \<noteq> pos) (rmatch r (cur, [])) of
           [] \<Rightarrow> None
         | ((pos', prev', rest'), g) # others \<Rightarrow> Some (pos' - pos)))"

fun sub_walk :: "regex \<Rightarrow> string \<Rightarrow> cursor \<Rightarrow> nat \<Rightarrow> string" where
  "sub_walk r repl (pos, prev, []) (Suc k) = []"
| "sub_walk r repl (pos, prev, c # cs) (Suc k) = sub_walk r repl (Suc pos, Some c, cs) k"
| "sub_walk r repl (pos, prev, []) 0 =
     (case match_at r (pos, prev, []) of None \<Rightarrow> [] | Some m \<Rightarrow> repl)"
| "sub_walk r repl (pos, prev, c # cs) 0 =
     (case match_at r (pos, prev, c # cs) of
        None \<Rightarrow> c # sub_walk r repl (Suc pos, Some c, cs) 0
      | Some m \<Rightarrow>
          (case length (group0 m) of
             Suc k \<Rightarrow> repl @ sub_walk r repl (Suc pos, Some c, cs) k
           | 0 \<Rightarrow>
               (case nonempty_match_at r (pos, prev, c # cs) of
                  None \<Rightarrow> repl @ c # sub_walk r repl (Suc pos, Some c, cs) 0
                | Some n \<Rightarrow> repl @ repl @ sub_walk r repl (Suc pos, Some c, cs) (n - 1))))"

definition re_sub :: "regex \<Rightarrow> string \<Rightarrow> string \<Rightarrow> string" where
  "re_sub r repl text = sub_walk r repl (0, None, text) 0"

section \<open>String similarity: \<open>difflib.SequenceMatcher(None, a, b).ratio()\<close>\<close>

text \<open>
  \<open>find_longest_match\<close> returns \<open>(i, j, k)\<close>: the longest block common to \<open>a\<close> and
  \<open>b\<close>, of all longest blocks the one that starts earliest in \<open>a\<close>, and of those the
  one that starts earliest in \<open>b\<close>. There is no junk: the heuristic of \<open>difflib\<close> only
  applies to a second sequence of 200 elements or more, and the second sequence here is
  always an author name of the table.
\<close>

fun common_prefix :: "string \<Rightarrow> string \<Rightarrow> nat" where
  "common_prefix (x # xs) (y # ys) = (if x = y then Suc (common_prefix xs ys) else 0)"
| "common_prefix xs ys = 0"

fun scan_b :: "string \<Rightarrow> string \<Rightarrow> nat \<Rightarrow> nat \<Rightarrow> nat \<times> nat \<times> nat \<Rightarrow> nat \<times> nat \<times> nat" where
  "scan_b a [] i j best = best"
| "scan_b a (y # ys) i j (bi, bj, bk) =
     scan_b a ys i (Suc j)
       (if bk < common_prefix a (y # ys) then (i, j, common_prefix a (y # ys)) else (bi, bj, bk))"

fun scan_a :: "string \<Rightarrow> string \<Rightarrow> nat \<Rightarrow> nat \<times> nat \<times> nat \<Rightarrow> nat \<times> nat \<times> nat" where
  "scan_a [] b i best = best"
| "scan_a (x # xs) b i best = scan_a xs b (Suc i) (scan_b (x # xs) b i 0 best)"

definition find_longest_match :: "string \<Rightarrow> string \<Rightarrow> nat \<times> nat \<times> nat" where
  "find_longest_match a b = scan_a a b 0 (0, 0, 0)"

lemma common_prefix_le: "common_prefix a b \<le> length a"
  by (induction a b rule: common_prefix.induct) auto

lemma scan_b_bound:
  "bi + bk \<le> n \<Longrightarrow> i + length a \<le> n \<Longrightarrow> scan_b a b i j (bi, bj, bk) = (i', j', k')
   \<Longrightarrow> i' + k' \<le> n"
proof (induction b arbitrary: j bi bj bk)
  case Nil
  then show ?case by simp
next
  case (Cons y ys)
  have "i + common_prefix a (y # ys) \<le> n"
    using common_prefix_le [of a "y # ys"] Cons.prems(2) by linarith
  with Cons show ?case
    by (auto split: if_splits)
qed

lemma scan_a_bound:
  "bi + bk \<le> n \<Longrightarrow> i + length a \<le> n \<Longrightarrow> scan_a a b i (bi, bj, bk) = (i', j', k')
   \<Longrightarrow> i' + k' \<le> n"
proof (induction a arbitrary: i bi bj bk)
  case Nil
  then show ?case by simp
next
  case (Cons x xs)
  obtain ci cj ck where c: "scan_b (x # xs) b i 0 (bi, bj, bk) = (ci, cj, ck)"
    by (cases "scan_b (x # xs) b i 0 (bi, bj, bk)") auto
  have "ci + ck \<le> n"
    using scan_b_bound [OF Cons.prems(1) Cons.prems(2) c] .
  moreover have "Suc i + length xs \<le> n"
    using Cons.prems(2) by simp
  ultimately show ?case
    using Cons.IH [of ci ck "Suc i" cj] Cons.prems(3) c by simp
qed

lemma find_longest_match_bound:
  "find_longest_match a b = (i, j, k) \<Longrightarrow> i + k \<le> length a"
  unfolding find_longest_match_def
  using scan_a_bound [of 0 0 "length a" 0 a b 0 i j k] by simp

text \<open>
  The number of matching characters: the sum of the sizes of \<open>get_matching_blocks\<close>,
  which takes the longest block and continues on the pieces to its left and to its right.
\<close>

function matching_chars :: "string \<Rightarrow> string \<Rightarrow> nat" where
  "matching_chars a b =
     (case find_longest_match a b of (i, j, k) \<Rightarrow>
        if k = 0 then 0
        else k
          + (if 0 < i \<and> 0 < j then matching_chars (take i a) (take j b) else 0)
          + (if i + k < length a \<and> j + k < length b
             then matching_chars (drop (i + k) a) (drop (j + k) b) else 0))"
  by pat_completeness auto
termination
  apply (relation "measure (\<lambda>(a, b). length a)")
    apply simp
   apply (auto dest: find_longest_match_bound [OF sym])
  done

definition ratio :: "string \<Rightarrow> string \<Rightarrow> real" where
  "ratio a b =
     (if length a + length b \<noteq> 0
      then 2.0 * real (matching_chars a b) / real (length a + length b) else 1.0)"

section \<open>The classification pipeline (services/nlp_pipeline.py)\<close>

datatype entity = Str_val string | Int_val int

record intent =
  name :: string
  confidence :: real
  entities :: "string \<rightharpoonup> entity"

datatype py_error = AttributeError | TypeError | ValueError

subsection \<open>The tables of \<open>__init__\<close>, in declaration order\<close>

definition intent_patterns :: "(string \<times> regex list) list" where
  "intent_patterns =
     [
      (''recommend_by_genre'',
        [
         cat [Str ''gosto de livros de '', Group 1 (Plus WordC)],
         cat [Str ''recomend'', Atom (OneOf [CHR ''a'', CHR ''e'']), Str '' livros de '',
            Group 1 (Plus WordC)],
         cat [Str ''livros do g'', Atom (OneOf [e_circ, CHR ''e'']), Str ''nero '', Group 1 (Plus WordC)],
         cat [Str ''quero ler '', Group 1 (Plus WordC)],
         cat [Str ''me interessa'', Opt (Str ''m''), Str '' '', Group 1 (Plus WordC)],
         cat [Str ''curto '', Group 1 (Plus WordC)],
         cat [Str ''adoro '', Group 1 (Plus WordC)],
         cat [Str ''gosto de '',
            Group 1 (one_of [''fic'' @ [c_cedil, a_tilde] @ ''o cient'' @ [i_acute] @ ''fica'',
            ''literatura brasileira''])],
         cat [Str ''quero ler '',
            Group 1 (one_of [''fic'' @ [c_cedil, a_tilde] @ ''o cient'' @ [i_acute] @ ''fica'',
            ''literatura brasileira''])],
         cat [Str ''livros de '',
            Group 1 (one_of [''fic'' @ [c_cedil, a_tilde] @ ''o cient'' @ [i_acute] @ ''fica'',
            ''literatura brasileira''])],
         cat [Str ''recomend'', Atom (OneOf [CHR ''a'', CHR ''e'']), Str '' '',
            Group 1 (one_of [''fic'' @ [c_cedil, a_tilde] @ ''o cient'' @ [i_acute] @ ''fica'',
            ''literatura brasileira''])],
         cat [Str ''algo de '', Group 1 (Plus WordC)],
         cat [Str ''livros '', Group 1 (Plus WordC)],
         cat [Str ''estou procurando '', Group 1 (Plus WordC)],
         cat [Str ''queria '', Group 1 (Plus WordC)],
         cat [Str ''busco '', Group 1 (Plus WordC)],
         cat [Str ''preciso de '', Group 1 (Plus WordC)]
        ]),
      (''recommend_by_author'',
        [
         cat [Str ''livros do autor '', Group 1 (PlusLazy AnyC), Alt (Atom SpaceC) Eos],
         cat [Str ''obras de '', Group 1 (PlusLazy AnyC), Alt (Atom SpaceC) Eos],
         cat [Str ''mostre livros de '', Group 1 (PlusLazy AnyC), Alt (Atom SpaceC) Eos],
         cat [Str ''autor '', Group 1 (PlusLazy AnyC), Alt (Atom SpaceC) Eos],
         cat [Str ''escrito por '', Group 1 (PlusLazy AnyC), Alt (Atom SpaceC) Eos],
         cat [Group 1 (PlusLazy AnyC), Str '' escreveu''],
         cat [Str ''tem '', Group 1 (PlusLazy AnyC), Str '' na biblioteca''],
         cat [Str ''conhece '', Opt (Group 1 (PlusLazy AnyC))],
         cat [Str (''j'' @ [a_acute] @ '' leu ''), Opt (Group 1 (PlusLazy AnyC))]
        ]),
      (''recommend_similar'',
        [
         cat [Str ''li o livro '', Group 1 (PlusLazy AnyC), Str '' e gostei''],
         cat [Str ''gostei do livro '', Group 1 (PlusLazy AnyC)],
         cat [Str ''similar ao '', Group 1 (PlusLazy AnyC)],
         cat [Str ''parecido com '', Group 1 (PlusLazy AnyC)],
         cat [Str ''baseado em '', Group 1 (PlusLazy AnyC)],
         cat [Str ''como '', Group 1 (PlusLazy AnyC)],
         cat [Str ''estilo '', Group 1 (PlusLazy AnyC)],
         cat [Str ''no mesmo tom de '', Group 1 (PlusLazy AnyC)],
         cat [Str ''que lembre '', Group 1 (PlusLazy AnyC)]
        ]),
      (''books_by_year'',
        [
         cat [Str ''livros de '', Group 1 (Rep 4 4 DigitC)],
         cat [Str ''publicados em '', Group 1 (Rep 4 4 DigitC)],
         cat [Str ''do ano '', Group 1 (Rep 4 4 DigitC)],
         cat [Str ''lan'', Atom (OneOf [c_cedil, CHR ''c'']), Str ''ados em '', Group 1 (Rep 4 4 DigitC)],
         cat [Str ''dos anos '', Group 1 (Rep 4 4 DigitC)],
         cat [Str (''da d'' @ [e_acute] @ ''cada de ''), Group 1 (Rep 4 4 DigitC)],
         cat [Str (''s'' @ [e_acute] @ ''culo ''), Group 1 (Rep 1 2 DigitC)]
        ]),
      (''bestsellers'',
        [
         cat [Str ''bestseller'', Opt (Str ''s'')],
         Str ''mais vendidos'',
         Str ''livros famosos'',
         Str ''populares'',
         Str ''sucessos'',
         Str ''consagrados'',
         Str ''aclamados'',
         Str ''premiados''
        ]),
      (''non_bestsellers'',
        [
         cat [Str ''n'', Atom (OneOf [a_tilde, CHR ''a'']), Str ''o bestseller'', Opt (Str ''s'')],
         Str ''menos conhecidos'',
         Str ''livros raros'',
         cat [Str ''indie'', Opt (Str ''s'')],
         Str ''independentes'',
         Str ''cult'',
         Str ''underground'',
         Str ''nicho''
        ]),
      (''recommend_by_mood'',
        [
         cat [Str ''estou '', Opt (Group 1 (Str ''me sentindo '')), Opt (Str ''muito ''),
            Group 2 (one_of [''triste'', ''feliz'', ''estressado'', ''ansioso'', ''deprimido'',
            ''animado'', ''bem'', ''mal''])],
         cat [Str ''me sentindo '', Group 1 (one_of [''triste'', ''feliz'', ''estressado'', ''ansioso'',
            ''deprimido'', ''animado'', ''bem'', ''mal'', ''para baixo''])],
         cat [Str ''preciso de algo '', Opt (Str ''que me ''), Group 1 (one_of [''anime'', ''relaxe'',
            ''emocione'', ''inspire'', ''divirta''])],
         cat [Str ''quero '', Group 1 (one_of [''chorar'', ''rir'', ''me emocionar'', ''relaxar'',
            ''me inspirar''])],
         cat [Str ''algo '', Group 1 (one_of [''emocionante'', ''relaxante'', ''triste'', ''divertido'',
            ''inspirador'', ''leve'', ''pesado''])],
         cat [Str ''humor '', Group 1 (one_of [''triste'', ''feliz'', ''estressado'', ''ansioso'',
            ''animado''])],
         cat [Str ''dia '', Group 1 (one_of [''ruim'', ''bom'', ''dif'' @ [i_acute] @ ''cil'',
            ''estressante''])],
         cat [Str ''preciso '', Group 1 (one_of [''relaxar'', ''me animar'', ''chorar'', ''rir''])],
         cat [Str ''estou '', Group 1 (one_of [''nost'' @ [a_acute] @ ''lgico'',
            ''melanc'' @ [o_acute] @ ''lico'', ''reflexivo'', ''contemplativo''])],
         cat [Str ''preciso '', Group 1 (one_of [''refletir'', ''pensar'', ''filosofar'', ''meditar''])],
         cat [Str ''quero algo '', Group 1 (one_of [''profundo'', ''superficial'', ''intelectual'',
            ''simples''])]
        ]),
      (''recommend_by_occasion'',
        [
         cat [Str ''vou '', Group 1 (one_of [''viajar'', ''para a praia'',
            ''de f'' @ [e_acute] @ ''rias'', ''trabalhar''])],
         cat [Str ''para ler '', Group 1 (one_of [''na praia'', ''no avi'' @ [a_tilde] @ ''o'',
            ''antes de dormir'', ''no trabalho''])],
         cat [Str ''algo para '', Group 1 (one_of [''relaxar'', ''passar o tempo'', ''viagem'',
            ''f'' @ [e_acute] @ ''rias''])],
         cat [Str ''leitura '', Group 1 (one_of [''leve'', ''r'' @ [a_acute] @ ''pida'',
            ''para viagem'', ''de f'' @ [e_acute] @ ''rias''])],
         cat [Str ''para '', Group 1 (one_of [''estudar'', ''aprender'', ''crescer'', ''evoluir''])],
         cat [Str ''no '', Group 1 (one_of [''metr'' @ [o_circ], [o_circ] @ ''nibus'', ''trem'',
            ''transporte''])],
         cat [Str ''entre '', Group 1 (one_of [''aulas'', ''reuni'' @ [o_tilde] @ ''es'',
            ''compromissos''])]
        ])
     ]"

definition mood_to_genre :: "(string \<times> string) list" where
  "mood_to_genre =
     [(''triste'', ''Romance''), (''deprimido'', ''Autoajuda''), (''mal'', ''Romance''),
      (''para baixo'', ''Autoajuda''), (''desanimado'', ''Autoajuda''),
      (''perdido'', ''Filosofia''), (''confuso'', ''Filosofia''), (''cansado'', ''Romance''),
      (''nost'' @ [a_acute] @ ''lgico'', ''Romance''),
      (''melanc'' @ [o_acute] @ ''lico'', ''Romance''), (''feliz'', ''Fantasia''),
      (''animado'', ''Thriller''), (''bem'', ''Hist'' @ [o_acute] @ ''ria''),
      (''motivado'', ''Biografia''), (''empolgado'', ''Fantasia''),
      (''confiante'', ''Thriller''), (''determinado'', ''Biografia''),
      (''reflexivo'', ''Filosofia''), (''contemplativo'', ''Filosofia''),
      (''anime'', ''Romance''), (''relaxe'', ''Romance''), (''emocione'', ''Romance''),
      (''inspire'', ''Biografia''), (''divirta'', ''Fantasia''), (''chorar'', ''Romance''),
      (''rir'', ''Romance''), (''relaxar'', ''Romance''), (''refletir'', ''Filosofia''),
      (''pensar'', ''Filosofia''), (''filosofar'', ''Filosofia''),
      (''meditar'', ''Filosofia''), (''emocionante'', ''Thriller''),
      (''relaxante'', ''Romance''), (''divertido'', ''Fantasia''),
      (''inspirador'', ''Biografia''), (''leve'', ''Romance''), (''pesado'', ''Filosofia''),
      (''profundo'', ''Filosofia''), (''superficial'', ''Romance''),
      (''intelectual'', ''Filosofia''), (''simples'', ''Romance'')]"

definition occasion_to_genre :: "(string \<times> string) list" where
  "occasion_to_genre =
     [(''viajar'', ''Romance''), (''praia'', ''Romance''),
      (''f'' @ [e_acute] @ ''rias'', ''Fantasia''), (''fim de semana'', ''Fantasia''),
      (''feriado'', ''Fantasia''), (''tempo livre'', ''Romance''), (''relaxar'', ''Romance''),
      (''trabalhar'', ''Autoajuda''), (''trabalho'', ''Autoajuda''),
      (''estudar'', ''Hist'' @ [o_acute] @ ''ria''),
      (''aprender'', ''Hist'' @ [o_acute] @ ''ria''), (''crescer'', ''Autoajuda''),
      (''evoluir'', ''Biografia''),
      (''avi'' @ [a_tilde] @ ''o'', ''Mist'' @ [e_acute] @ ''rio''),
      (''metr'' @ [o_circ], ''Thriller''), ([o_circ] @ ''nibus'', ''Romance''),
      (''trem'', ''Mist'' @ [e_acute] @ ''rio''), (''transporte'', ''Romance''),
      (''dormir'', ''Romance''), (''aulas'', ''Filosofia''),
      (''reuni'' @ [o_tilde] @ ''es'', ''Autoajuda''), (''compromissos'', ''Romance''),
      (''viagem'', ''Mist'' @ [e_acute] @ ''rio'')]"

definition genre_synonyms :: "(string \<times> string list) list" where
  "genre_synonyms =
     [(''terror'',
        [''horror'', ''medo'', ''assombra'' @ [c_cedil, a_tilde] @ ''o'', ''suspense'', ''assustador'',
         ''macabro'', ''sombrio'', ''g'' @ [o_acute] @ ''tico'']),
      (''romance'',
        [''amor'', ''rom'' @ [a_circ] @ ''ntico'', ''paix'' @ [a_tilde] @ ''o'', ''amoroso'',
         ''sentimental'', ''emocional'', ''tocante'', ''dram'' @ [a_acute] @ ''tico'']),
      (''thriller'',
        [''suspense'', ''a'' @ [c_cedil, a_tilde] @ ''o'', ''tens'' @ [a_tilde] @ ''o'',
         ''mist'' @ [e_acute] @ ''rio'', ''emocionante'', ''adrenalina'',
         ''investiga'' @ [c_cedil, a_tilde] @ ''o'']),
      (''fic'' @ [c_cedil, a_tilde] @ ''o cient'' @ [i_acute] @ ''fica'',
        [''sci-fi'', ''futurista'', ''espacial'', ''fic'' @ [c_cedil, a_tilde] @ ''o'',
         ''cient'' @ [i_acute] @ ''fica'', ''futurismo'', ''distopia'', ''cyberpunk'']),
      (''fantasia'',
        [''magia'', [e_acute] @ ''pico'', ''medieval'', ''m'' @ [a_acute] @ ''gico'',
         ''fant'' @ [a_acute] @ ''stico'', ''aventura'', ''mitol'' @ [o_acute] @ ''gico'',
         ''lend'' @ [a_acute] @ ''rio'']),
      (''autoajuda'',
        [''auto-ajuda'', ''desenvolvimento'', ''pessoal'', ''motiva'' @ [c_cedil, a_tilde] @ ''o'',
         ''sucesso'', ''crescimento'', ''coaching'', ''lideran'' @ [c_cedil] @ ''a'']),
      (''hist'' @ [o_acute] @ ''ria'',
        [''hist'' @ [o_acute] @ ''rico'', ''passado'', ''civiliza'' @ [c_cedil, a_tilde] @ ''o'',
         ''humanidade'', ''hist'' @ [o_acute] @ ''rica'', [e_acute] @ ''poca'', ''guerra'',
         ''biografia hist'' @ [o_acute] @ ''rica'']),
      (''filosofia'',
        [''filos'' @ [o_acute] @ ''fico'', ''reflex'' @ [a_tilde] @ ''o'', ''pensamento'',
         ''existencial'', ''reflexivo'', ''profundo'', ''intelectual'', ''contemplativo'']),
      (''biografia'',
        [''biogr'' @ [a_acute] @ ''fico'', ''vida'', ''personalidade'', ''famoso'', ''autobiografia'',
         ''mem'' @ [o_acute] @ ''rias'', ''trajet'' @ [o_acute] @ ''ria'',
         ''hist'' @ [o_acute] @ ''ria de vida'']),
      (''mist'' @ [e_acute] @ ''rio'',
        [''misterioso'', ''enigma'', ''detetive'', ''investiga'' @ [c_cedil, a_tilde] @ ''o'',
         ''crime'', ''policial'', ''suspense'', ''noir'']),
      (''literatura brasileira'',
        [''brasileiro'', ''brasil'', ''nacional'', ''literatura'', ''brasiliense'', ''tupiniquim'',
         ''verde-amarelo''])]"

definition famous_authors :: "(string \<times> string list) list" where
  "famous_authors =
     [(''stephen king'',
        [''king'', ''stephen'', ''steve king'']),
      (''dan brown'',
        [''brown'', ''dan'', ''daniel brown'']),
      (''j.k. rowling'',
        [''rowling'', ''jk rowling'', ''joanne rowling'']),
      (''j.r.r. tolkien'',
        [''tolkien'', ''jrr tolkien'', ''john tolkien'']),
      (''agatha christie'',
        [''christie'', ''agatha'']),
      (''arthur conan doyle'',
        [''doyle'', ''conan doyle'', ''arthur doyle'']),
      (''george orwell'',
        [''orwell'', ''george'']),
      (''isaac asimov'',
        [''asimov'', ''isaac'']),
      (''frank herbert'',
        [''herbert'', ''frank'']),
      (''h.g. wells'',
        [''wells'', ''hg wells'', ''herbert wells'']),
      (''edgar allan poe'',
        [''poe'', ''edgar poe'', ''allan poe'']),
      (''franz kafka'',
        [''kafka'', ''franz'']),
      (''albert camus'',
        [''camus'', ''albert'']),
      (''gabriel garc'' @ [i_acute] @ ''a m'' @ [a_acute] @ ''rquez'',
        [''m'' @ [a_acute] @ ''rquez'', ''garcia marquez'', ''gabriel garcia'']),
      (''machado de assis'',
        [''machado'', ''assis'', ''machado assis'']),
      (''paulo coelho'',
        [''coelho'', ''paulo'']),
      (''yuval noah harari'',
        [''harari'', ''yuval'', ''noah harari''])]"

subsection \<open>\<open>_find_best_author_match\<close>\<close>

fun find_variation :: "string \<Rightarrow> (string \<times> string list) list \<Rightarrow> string option" where
  "find_variation author_lower [] = None"
| "find_variation author_lower ((full_name, variations) # rest) =
     (if author_lower \<in> set variations then Some full_name
      else find_variation author_lower rest)"

fun best_author_loop :: "string \<Rightarrow> string list \<Rightarrow> string option \<times> real \<Rightarrow> string option \<times> real" where
  "best_author_loop author_lower [] (best_match, best_ratio) = (best_match, best_ratio)"
| "best_author_loop author_lower (a # all_authors) (best_match, best_ratio) =
     (if best_ratio < ratio author_lower a \<and> 0.7 < ratio author_lower a
      then best_author_loop author_lower all_authors (Some a, ratio author_lower a)
      else best_author_loop author_lower all_authors (best_match, best_ratio))"

definition find_best_author_match :: "string \<Rightarrow> string option" where
  "find_best_author_match author_input =
     (let author_lower = strip (lower author_input)
      in if author_lower \<in> set (map fst famous_authors) then Some author_lower
         else (case find_variation author_lower famous_authors of
                 Some full_name \<Rightarrow> Some full_name
               | None \<Rightarrow>
                   fst (best_author_loop author_lower (map fst famous_authors) (None, 0.0))))"

subsection \<open>\<open>_expand_synonyms\<close>\<close>

text \<open>The pattern \<open>r'\b' + re.escape(synonym) + r'\b'\<close>.\<close>

definition word_pattern :: "string \<Rightarrow> regex" where
  "word_pattern synonym = Cat WordB (Cat (Str synonym) WordB)"

definition expand_synonyms :: "string \<Rightarrow> string" where
  "expand_synonyms text =
     fold (\<lambda>(main_genre, synonyms) text.
             fold (\<lambda>synonym text. re_sub (word_pattern synonym) main_genre text) synonyms text)
       genre_synonyms text"

subsection \<open>\<open>_calculate_confidence\<close>\<close>

text \<open>
  The division by the length of an empty text raises, and the bare \<open>except\<close> leads to
  the final \<open>return 0.3\<close>. Confidences are reals.
\<close>

definition calculate_confidence :: "string \<Rightarrow> regex \<Rightarrow> real" where
  "calculate_confidence text pattern =
     (case re_search pattern text of
        Some m \<Rightarrow>
          (let match_length = length (group0 m);
               text_length = length text
           in if text_length = 0 then 0.3
              else (let base_confidence = min 0.95 ((real match_length / real text_length) * 2);
                        base_confidence =
                          (if real (m_start m) < real (length text) * 0.3
                           then base_confidence + 0.1 else base_confidence)
                    in min base_confidence 0.95))
      | None \<Rightarrow> 0.3)"

subsection \<open>\<open>process\<close>\<close>

text \<open>
  \<open>int(year_str)\<close> on the strings that \<open>\d\<close> captures, which are strings of the digits
  0 to 9; no other string reaches it.
\<close>

definition py_int :: "string \<Rightarrow> py_error + int" where
  "py_int s =
     (if s \<noteq> [] \<and> list_all is_digit s
      then Inr (foldl (\<lambda>acc c. 10 * acc + (int (of_char c) - 48)) 0 s)
      else Inl ValueError)"

definition seculo :: string where
  "seculo = ''s'' @ [e_acute] @ ''culo''"

text \<open>
  The body of \<open>if match.groups():\<close>. A group that took no part in the match is
  \<open>None\<close>, and \<open>None.strip()\<close> raises \<open>AttributeError\<close>.
\<close>

definition extract_entities :: "string \<Rightarrow> string \<Rightarrow> rematch \<Rightarrow> py_error + (string \<rightharpoonup> entity)" where
  "extract_entities intent_name text m =
     (if intent_name \<in> set [''recommend_by_genre'', ''recommend_similar''] then
        (case match_group m 1 of
           None \<Rightarrow> Inl AttributeError
         | Some s \<Rightarrow> Inr [''target'' \<mapsto> Str_val (strip s)])
      else if intent_name = ''recommend_by_author'' then
        (case match_group m 1 of
           None \<Rightarrow> Inl AttributeError
         | Some s \<Rightarrow>
             (let author_name = strip s
              in Inr [''author'' \<mapsto> Str_val
                   (case find_best_author_match author_name of
                      None \<Rightarrow> author_name
                    | Some normalized_author \<Rightarrow>
                        if normalized_author \<noteq> [] then normalized_author else author_name)]))
      else if intent_name = ''books_by_year'' then
        (case match_group m 1 of
           None \<Rightarrow> Inl TypeError
         | Some year_str \<Rightarrow>
             (case py_int year_str of
                Inl e \<Rightarrow> Inl e
              | Inr n \<Rightarrow>
                  if contains text seculo then Inr [''year'' \<mapsto> Int_val ((n - 1) * 100 + 50)]
                  else Inr [''year'' \<mapsto> Int_val n]))
      else if intent_name = ''recommend_by_mood'' then
        (let mood_word =
               (case match_group m 1 of
                  None \<Rightarrow> strip (group0 m)
                | Some s \<Rightarrow> if s \<noteq> [] then strip s else strip (group0 m));
             target_genre =
               (case map_of mood_to_genre mood_word of None \<Rightarrow> ''Romance'' | Some g \<Rightarrow> g)
         in Inr [''mood'' \<mapsto> Str_val mood_word, ''target'' \<mapsto> Str_val target_genre])
      else if intent_name = ''recommend_by_occasion'' then
        (let occasion_word =
               (case match_group m 1 of
                  None \<Rightarrow> strip (group0 m)
                | Some s \<Rightarrow> if s \<noteq> [] then strip s else strip (group0 m));
             target_genre =
               (case map_of occasion_to_genre occasion_word of None \<Rightarrow> ''Romance'' | Some g \<Rightarrow> g)
         in Inr [''occasion'' \<mapsto> Str_val occasion_word, ''target'' \<mapsto> Str_val target_genre])
      else Inr Map.empty)"

text \<open>What \<open>process\<close> does once a pattern has matched, up to its \<open>return\<close>.\<close>

definition on_match :: "string \<Rightarrow> string \<Rightarrow> regex \<Rightarrow> rematch \<Rightarrow> py_error + intent" where
  "on_match intent_name text pattern m =
     (let c = calculate_confidence text pattern
      in if 0 < ngroups pattern then
           (case extract_entities intent_name text m of
              Inl e \<Rightarrow> Inl e
            | Inr ents \<Rightarrow> Inr \<lparr>name = intent_name, confidence = c, entities = ents\<rparr>)
         else Inr \<lparr>name = intent_name, confidence = c, entities = Map.empty\<rparr>)"

text \<open>The inner loop over the patterns of one intent; \<open>None\<close> when none of them matches.\<close>

fun try_patterns :: "string \<Rightarrow> string \<Rightarrow> regex list \<Rightarrow> (py_error + intent) option" where
  "try_patterns text intent_name [] = None"
| "try_patterns text intent_name (pattern # patterns) =
     (case re_search pattern text of
        Some m \<Rightarrow> Some (on_match intent_name text pattern m)
      | None \<Rightarrow> try_patterns text intent_name patterns)"

text \<open>The outer loop over the intents, and the final \<open>return Intent('unknown', 0.0, {})\<close>.\<close>

fun try_intents :: "string \<Rightarrow> (string \<times> regex list) list \<Rightarrow> py_error + intent" where
  "try_intents text [] = Inr \<lparr>name = ''unknown'', confidence = 0.0, entities = Map.empty\<rparr>"
| "try_intents text ((intent_name, patterns) # rest) =
     (case try_patterns text intent_name patterns of
        Some result \<Rightarrow> result
      | None \<Rightarrow> try_intents text rest)"

definition process :: "string \<Rightarrow> py_error + intent" where
  "process text = try_intents (expand_synonyms (strip (lower text))) intent_patterns"

section \<open>Auxiliary definitions for the statements\<close>

text \<open>
  The candidates of \<open>recommend_similar_books\<close>: the books of the genre of the reference
  book, without the reference book itself.
\<close>

definition similar_candidates :: "book list \<Rightarrow> book \<Rightarrow> book list" where
  "similar_candidates books target_book =
     filter (\<lambda>b. book_id b \<noteq> book_id target_book) (get_books_by_genre books (genre target_book))"

text \<open>
  A catalog of three books of one genre: a reference book, a book of the same author
  rated 3.0 and a book of another author rated 4.9.
\<close>

definition book_it :: book where
  "book_it = \<lparr>book_id = 1, title = ''It'', author = ''Stephen King'', genre = ''Terror'',
     year = 1986, bestseller = True, description = ''A coisa'', rating = 4.5\<rparr>"

definition book_carrie :: book where
  "book_carrie = \<lparr>book_id = 2, title = ''Carrie'', author = ''Stephen King'', genre = ''Terror'',
     year = 1974, bestseller = True, description = ''A estranha'', rating = 3.0\<rparr>"

definition book_dracula :: book where
  "book_dracula = \<lparr>book_id = 3, title = ''Dracula'', author = ''Bram Stoker'', genre = ''Terror'',
     year = 1897, bestseller = False, description = ''O vampiro'', rating = 4.9\<rparr>"

definition example_catalog :: "book list" where
  "example_catalog = [book_it, book_carrie, book_dracula]"

text \<open>
  The first match in table order, as the two loops of \<open>process\<close> find it: the name of
  the intent, the pattern and the match object.
\<close>

fun first_pattern :: "string \<Rightarrow> regex list \<Rightarrow> (regex \<times> rematch) option" where
  "first_pattern text [] = None"
| "first_pattern text (pattern # patterns) =
     (case re_search pattern text of
        Some m \<Rightarrow> Some (pattern, m)
      | None \<Rightarrow> first_pattern text patterns)"

fun first_match :: "string \<Rightarrow> (string \<times> regex list) list \<Rightarrow> (string \<times> regex \<times> rematch) option" where
  "first_match text [] = None"
| "first_match text ((intent_name, patterns) # rest) =
     (case first_pattern text patterns of
        Some (pattern, m) \<Rightarrow> Some (intent_name, pattern, m)
      | None \<Rightarrow> first_match text rest)"

text \<open>
  The genre name \<open>ficcao cientifica\<close>, with its cedilla, tilde and acute accent, as the
  tables spell it, and an utterance that asks for it.
\<close>

definition ficcao_cientifica :: string where
  "ficcao_cientifica = ''fic'' @ [c_cedil, a_tilde] @ ''o cient'' @ [i_acute] @ ''fica''"

definition gosto_de_ficcao_cientifica :: string where
  "gosto_de_ficcao_cientifica = ''gosto de '' @ ficcao_cientifica"

text \<open>The genre name \<open>misterio\<close>, with its acute accent, as the tables spell it.\<close>

definition misterio :: string where
  "misterio = ''mist'' @ [e_acute] @ ''rio''"

text \<open>
  An utterance of two lines: \<open>conhece\<close> and a space on the first, \<open>bestsellers\<close> on
  the second.
\<close>

definition conhece_text :: string where
  "conhece_text = ''conhece '' @ [newline] @ ''bestsellers''"

section \<open>Properties of the recommendation engine\<close>

lemma rating_descending_sorted_by_rating: "rating_descending (sorted_by_rating bs)"
proof -
  have "sorted (map (\<lambda>b. - rating b) (sort_key (\<lambda>b. - rating b) bs))"
    by (rule sorted_sort_key)
  then show ?thesis
    by (simp add: rating_descending_def sorted_by_rating_def sorted_map)
qed

lemma rating_descending_slice:
  "rating_descending bs \<Longrightarrow> rating_descending (slice_to bs limit)"
  by (simp add: rating_descending_def slice_to_def sorted_wrt_take)

lemma length_slice_to: "0 \<le> limit \<Longrightarrow> length (slice_to bs limit) \<le> nat limit"
  by (simp add: slice_to_def)

lemma ranked: "rating_descending (slice_to (sorted_by_rating bs) limit)"
  by (rule rating_descending_slice) (rule rating_descending_sorted_by_rating)

lemma sorted_wrt_all: "(\<And>x y. x \<in> set xs \<Longrightarrow> y \<in> set xs \<Longrightarrow> Q x y) \<Longrightarrow> sorted_wrt Q xs"
  by (induction xs) auto

lemma sorted_wrt_key_classes:
  "(\<And>k. sorted_wrt Q (filter (\<lambda>x. f x = k) ys)) \<Longrightarrow> sorted_wrt (\<lambda>a b. f a = f b \<longrightarrow> Q a b) ys"
proof (induction ys)
  case Nil
  then show ?case by simp
next
  case (Cons y ys)
  have tail: "sorted_wrt Q (filter (\<lambda>x. f x = k) ys)" for k
    using Cons.prems [of k] by (cases "f y = k") simp_all
  have "Q y x" if "x \<in> set ys" "f y = f x" for x
    using Cons.prems [of "f y"] that by auto
  with Cons.IH [OF tail] show ?case
    by auto
qed

lemma same_author_first_among_equal_ratings:
  "sorted_wrt (\<lambda>a b. rating a = rating b \<longrightarrow> (P b \<longrightarrow> P a))
     (sorted_by_rating (filter P xs @ filter (\<lambda>b. \<not> P b) xs))"
proof -
  let ?f = "\<lambda>b. - rating b"
  let ?Q = "\<lambda>a b. P b \<longrightarrow> P a"
  have "sorted_wrt ?Q (filter (\<lambda>x. ?f x = k) (sort_key ?f (filter P xs @ filter (\<lambda>b. \<not> P b) xs)))" for k
    unfolding sort_key_stable
    by (auto simp: sorted_wrt_append intro!: sorted_wrt_all)
  then have "sorted_wrt (\<lambda>a b. ?f a = ?f b \<longrightarrow> ?Q a b)
     (sort_key ?f (filter P xs @ filter (\<lambda>b. \<not> P b) xs))"
    by (rule sorted_wrt_key_classes)
  then show ?thesis
    by (simp add: sorted_by_rating_def)
qed

lemma sorted_wrt_slice: "sorted_wrt R xs \<Longrightarrow> sorted_wrt R (slice_to xs limit)"
  by (simp add: slice_to_def sorted_wrt_take)

lemma set_slice_subset: "set (slice_to xs limit) \<subseteq> set xs"
  by (auto simp: slice_to_def dest: in_set_takeD)

lemma slice_all: "int (length xs) \<le> limit \<Longrightarrow> slice_to xs limit = xs"
  by (simp add: slice_to_def)

lemma recommend_similar_books_found:
  "find_book_by_title books t = Some ref \<Longrightarrow>
   recommend_similar_books books t limit =
     slice_to (sorted_by_rating
       (filter (\<lambda>b. author b = author ref) (similar_candidates books ref)
        @ filter (\<lambda>b. author b \<noteq> author ref) (similar_candidates books ref))) limit"
  by (simp add: recommend_similar_books_def similar_candidates_def Let_def)

lemma example_find: "find_book_by_title example_catalog ''it'' = Some book_it"
  by code_simp

lemma example_similar:
  "recommend_similar_books example_catalog ''it'' 5 = [book_dracula, book_carrie]"
  by code_simp

lemma length_slice_to_min: "0 \<le> limit \<Longrightarrow> length (slice_to xs limit) = min (nat limit) (length xs)"
  by (simp add: slice_to_def min_def)

lemma similar_candidates_filter:
  "similar_candidates books ref =
     filter (\<lambda>b. lower (genre b) = lower (genre ref) \<and> book_id b \<noteq> book_id ref) books"
  by (simp add: similar_candidates_def get_books_by_genre_def)

lemma rating_class_of_ranking:
  "filter (\<lambda>b. rating b = k) (sorted_by_rating (filter P xs @ filter (\<lambda>b. \<not> P b) xs)) =
     filter (\<lambda>b. rating b = k \<and> P b) xs @ filter (\<lambda>b. rating b = k \<and> \<not> P b) xs"
proof -
  have "filter (\<lambda>b. - rating b = - k) (sort_key (\<lambda>b. - rating b) (filter P xs @ filter (\<lambda>b. \<not> P b) xs))
      = filter (\<lambda>b. - rating b = - k) (filter P xs @ filter (\<lambda>b. \<not> P b) xs)"
    by (rule sort_key_stable)
  then show ?thesis
    by (simp add: sorted_by_rating_def conj_commute)
qed

text \<open>
  Claim C1, as amended. For a title fragment that resolves to a reference book,
  \<open>recommend_similar_books\<close> returns the first \<open>limit\<close> books (the slice
  \<open>[:limit]\<close>) of the ranking of all candidates, which is its own result at a limit equal
  to the size of the catalog. The candidates are the books of the catalog of the genre of
  the reference book, the reference book excluded; the ranking contains each of them, in
  descending order of rating whatever their authors. Among books of one rating those of
  the author of the reference book come first, then the others, each group in catalog
  order; so a book of that author comes before a book of another author only among books
  of equal rating.
\<close>

theorem similar_books_rating_then_author:
  assumes "find_book_by_title books t = Some ref"
  shows "recommend_similar_books books t limit
           = slice_to (recommend_similar_books books t (int (length books))) limit
       \<and> (0 \<le> limit \<longrightarrow>
            length (recommend_similar_books books t limit)
              = min (nat limit)
                  (length (filter (\<lambda>b. lower (genre b) = lower (genre ref)
                                       \<and> book_id b \<noteq> book_id ref) books)))
       \<and> length (recommend_similar_books books t (int (length books)))
           = length (filter (\<lambda>b. lower (genre b) = lower (genre ref) \<and> book_id b \<noteq> book_id ref) books)
       \<and> set (recommend_similar_books books t (int (length books)))
           = {b \<in> set books. lower (genre b) = lower (genre ref) \<and> book_id b \<noteq> book_id ref}
       \<and> rating_descending (recommend_similar_books books t (int (length books)))
       \<and> (\<forall>k. filter (\<lambda>b. rating b = k) (recommend_similar_books books t (int (length books)))
              = filter (\<lambda>b. rating b = k \<and> author b = author ref)
                  (filter (\<lambda>b. lower (genre b) = lower (genre ref) \<and> book_id b \<noteq> book_id ref) books)
                @ filter (\<lambda>b. rating b = k \<and> author b \<noteq> author ref)
                  (filter (\<lambda>b. lower (genre b) = lower (genre ref) \<and> book_id b \<noteq> book_id ref) books))
       \<and> (\<forall>b \<in> set (recommend_similar_books books t limit).
            b \<in> set books \<and> lower (genre b) = lower (genre ref) \<and> book_id b \<noteq> book_id ref)
       \<and> (int (length books) \<le> limit \<longrightarrow>
            set (recommend_similar_books books t limit)
              = {b \<in> set books. lower (genre b) = lower (genre ref) \<and> book_id b \<noteq> book_id ref})
       \<and> rating_descending (recommend_similar_books books t limit)
       \<and> sorted_wrt (\<lambda>a b. rating a = rating b \<longrightarrow> author b = author ref \<longrightarrow> author a = author ref)
            (recommend_similar_books books t limit)"
proof -
  let ?c = "similar_candidates books ref"
  let ?l = "filter (\<lambda>b. author b = author ref) ?c @ filter (\<lambda>b. author b \<noteq> author ref) ?c"
  let ?full = "recommend_similar_books books t (int (length books))"
  have eq: "recommend_similar_books books t n = slice_to (sorted_by_rating ?l) n" for n
    using assms by (rule recommend_similar_books_found)
  have len_l: "length (sorted_by_rating ?l) = length ?c"
    using sum_length_filter_compl [of "\<lambda>b. author b = author ref" ?c]
    by (simp add: sorted_by_rating_def)
  have "length ?c \<le> length books"
    by (simp add: similar_candidates_filter)
  with len_l have len: "length (sorted_by_rating ?l) \<le> length books"
    by simp
  have full: "?full = sorted_by_rating ?l"
    unfolding eq using len by (simp add: slice_all)
  have set_l: "set (sorted_by_rating ?l)
      = {b \<in> set books. lower (genre b) = lower (genre ref) \<and> book_id b \<noteq> book_id ref}"
    by (auto simp: sorted_by_rating_def similar_candidates_filter)
  have a: "recommend_similar_books books t limit = slice_to ?full limit"
    unfolding full by (rule eq)
  have lc: "length ?c
      = length (filter (\<lambda>b. lower (genre b) = lower (genre ref) \<and> book_id b \<noteq> book_id ref) books)"
    by (simp add: similar_candidates_filter)
  have b: "0 \<le> limit \<longrightarrow> length (recommend_similar_books books t limit)
      = min (nat limit) (length (filter (\<lambda>b. lower (genre b) = lower (genre ref)
                                       \<and> book_id b \<noteq> book_id ref) books))"
  proof
    assume "0 \<le> limit"
    then have "length (slice_to (sorted_by_rating ?l) limit)
        = min (nat limit) (length (sorted_by_rating ?l))"
      by (rule length_slice_to_min)
    then show "length (recommend_similar_books books t limit)
      = min (nat limit) (length (filter (\<lambda>b. lower (genre b) = lower (genre ref)
                                       \<and> book_id b \<noteq> book_id ref) books))"
      by (simp only: eq len_l lc)
  qed
  have c: "length ?full
      = length (filter (\<lambda>b. lower (genre b) = lower (genre ref) \<and> book_id b \<noteq> book_id ref) books)"
    by (simp only: full len_l lc)
  have d: "set ?full
      = {b \<in> set books. lower (genre b) = lower (genre ref) \<and> book_id b \<noteq> book_id ref}"
    unfolding full by (rule set_l)
  have e: "rating_descending ?full"
    unfolding eq by (rule ranked)
  have f: "\<forall>k. filter (\<lambda>b. rating b = k) ?full
              = filter (\<lambda>b. rating b = k \<and> author b = author ref)
                  (filter (\<lambda>b. lower (genre b) = lower (genre ref) \<and> book_id b \<noteq> book_id ref) books)
                @ filter (\<lambda>b. rating b = k \<and> author b \<noteq> author ref)
                  (filter (\<lambda>b. lower (genre b) = lower (genre ref) \<and> book_id b \<noteq> book_id ref) books)"
    unfolding full by (simp only: rating_class_of_ranking similar_candidates_filter) simp
  have 1: "\<forall>b \<in> set (recommend_similar_books books t limit).
            b \<in> set books \<and> lower (genre b) = lower (genre ref) \<and> book_id b \<noteq> book_id ref"
    using set_slice_subset [of "sorted_by_rating ?l" limit] set_l unfolding eq by blast
  have 2: "int (length books) \<le> limit \<longrightarrow>
            set (recommend_similar_books books t limit)
              = {b \<in> set books. lower (genre b) = lower (genre ref) \<and> book_id b \<noteq> book_id ref}"
    using len set_l unfolding eq by (simp add: slice_all)
  have 3: "rating_descending (recommend_similar_books books t limit)"
    unfolding eq by (rule ranked)
  have 4: "sorted_wrt (\<lambda>a b. rating a = rating b \<longrightarrow> author b = author ref \<longrightarrow> author a = author ref)
            (recommend_similar_books books t limit)"
    unfolding eq by (rule sorted_wrt_slice) (rule same_author_first_among_equal_ratings)
  from a b c d e f 1 2 3 4 show ?thesis
    by blast
qed

text \<open>
  The catalog of the claim: the book of the same author rated 3.0 comes second, after the
  book of the other author rated 4.9.
\<close>

theorem similar_books_author_first_counterexample:
  "find_book_by_title example_catalog ''it'' = Some book_it
   \<and> similar_candidates example_catalog book_it = [book_carrie, book_dracula]
   \<and> author book_carrie = author book_it \<and> rating book_carrie = 3.0
   \<and> author book_dracula \<noteq> author book_it \<and> rating book_dracula = 4.9
   \<and> recommend_similar_books example_catalog ''it'' 5 = [book_dracula, book_carrie]
   \<and> recommend_similar_books example_catalog ''it'' 5 \<noteq> [book_carrie, book_dracula]"
proof -
  have "similar_candidates example_catalog book_it = [book_carrie, book_dracula]"
    by code_simp
  moreover have "[book_dracula, book_carrie] \<noteq> [book_carrie, book_dracula]"
    by (simp add: book_dracula_def book_carrie_def)
  ultimately show ?thesis
    using example_find example_similar
    by (simp add: book_it_def book_carrie_def book_dracula_def)
qed

text \<open>The amended statement at the same catalog.\<close>

lemma example_similar_all:
  "recommend_similar_books example_catalog ''it'' 3 = [book_dracula, book_carrie]"
  by code_simp

lemma example_similar_one:
  "recommend_similar_books example_catalog ''it'' 1 = [book_dracula]"
  by code_simp

lemma example_candidates:
  "filter (\<lambda>b. lower (genre b) = lower (genre book_it) \<and> book_id b \<noteq> book_id book_it) example_catalog
     = [book_carrie, book_dracula]"
  by code_simp

theorem similar_books_rating_then_author_witness:
  "find_book_by_title example_catalog ''it'' = Some book_it
   \<and> filter (\<lambda>b. lower (genre b) = lower (genre book_it) \<and> book_id b \<noteq> book_id book_it)
         example_catalog = [book_carrie, book_dracula]
   \<and> recommend_similar_books example_catalog ''it'' (int (length example_catalog))
       = [book_dracula, book_carrie]
   \<and> recommend_similar_books example_catalog ''it'' 1 = [book_dracula]
   \<and> recommend_similar_books example_catalog ''it'' 1
       = slice_to (recommend_similar_books example_catalog ''it'' (int (length example_catalog))) 1
   \<and> length (recommend_similar_books example_catalog ''it'' 1)
       = min (nat 1) (length (filter (\<lambda>b. lower (genre b) = lower (genre book_it)
                                          \<and> book_id b \<noteq> book_id book_it) example_catalog))
   \<and> set (recommend_similar_books example_catalog ''it'' (int (length example_catalog)))
       = {book_dracula, book_carrie}
   \<and> rating_descending (recommend_similar_books example_catalog ''it'' 1)
   \<and> sorted_wrt (\<lambda>a b. rating a = rating b \<longrightarrow> author b = author book_it \<longrightarrow> author a = author book_it)
        (recommend_similar_books example_catalog ''it'' 1)"
proof -
  note th = similar_books_rating_then_author [OF example_find, of 1]
  have n: "int (length example_catalog) = 3"
    by (simp add: example_catalog_def)
  have full: "recommend_similar_books example_catalog ''it'' (int (length example_catalog))
      = [book_dracula, book_carrie]"
    by (simp only: n example_similar_all)
  have t1: "recommend_similar_books example_catalog ''it'' 1
      = slice_to (recommend_similar_books example_catalog ''it'' (int (length example_catalog))) 1"
    using th by blast
  have "(0::int) \<le> 1 \<longrightarrow> length (recommend_similar_books example_catalog ''it'' 1)
       = min (nat 1) (length (filter (\<lambda>b. lower (genre b) = lower (genre book_it)
                                          \<and> book_id b \<noteq> book_id book_it) example_catalog))"
    using th by blast
  then have t2: "length (recommend_similar_books example_catalog ''it'' 1)
       = min (nat 1) (length (filter (\<lambda>b. lower (genre b) = lower (genre book_it)
                                          \<and> book_id b \<noteq> book_id book_it) example_catalog))"
    by simp
  have t3: "set (recommend_similar_books example_catalog ''it'' (int (length example_catalog)))
       = {book_dracula, book_carrie}"
    by (simp only: full) simp
  have t4: "rating_descending (recommend_similar_books example_catalog ''it'' 1)"
    using th by blast
  have t5: "sorted_wrt (\<lambda>a b. rating a = rating b \<longrightarrow> author b = author book_it \<longrightarrow> author a = author book_it)
        (recommend_similar_books example_catalog ''it'' 1)"
    using th by blast
  from example_find example_candidates full example_similar_one t1 t2 t3 t4 t5 show ?thesis
    by (intro conjI)
qed

text \<open>
  Claim C9. With a limit that is not negative, each of the seven recommendation
  operations (by genre, author, year, bestsellers, similar books, mood, occasion) returns
  a list in descending order of rating whose length is at most the limit.
\<close>

theorem recommendations_sorted_and_limited:
  assumes "0 \<le> limit"
  shows "(rating_descending (recommend_by_genre books g limit)
            \<and> length (recommend_by_genre books g limit) \<le> nat limit)
       \<and> (rating_descending (recommend_by_author books a limit)
            \<and> length (recommend_by_author books a limit) \<le> nat limit)
       \<and> (rating_descending (recommend_by_year books y limit)
            \<and> length (recommend_by_year books y limit) \<le> nat limit)
       \<and> (rating_descending (recommend_bestsellers books flag limit)
            \<and> length (recommend_bestsellers books flag limit) \<le> nat limit)
       \<and> (rating_descending (recommend_similar_books books t limit)
            \<and> length (recommend_similar_books books t limit) \<le> nat limit)
       \<and> (rating_descending (recommend_by_mood books mood tg limit)
            \<and> length (recommend_by_mood books mood tg limit) \<le> nat limit)
       \<and> (rating_descending (recommend_by_occasion books occasion tg limit)
            \<and> length (recommend_by_occasion books occasion tg limit) \<le> nat limit)"
proof -
  have s: "rating_descending (slice_to (sorted_by_rating bs) limit)
           \<and> length (slice_to (sorted_by_rating bs) limit) \<le> nat limit" for bs
    using assms by (simp add: ranked length_slice_to)
  have sim: "rating_descending (recommend_similar_books books t limit)
           \<and> length (recommend_similar_books books t limit) \<le> nat limit"
  proof (cases "find_book_by_title books t")
    case None
    then show ?thesis
      by (simp add: recommend_similar_books_def rating_descending_def)
  next
    case (Some ref)
    show ?thesis
      unfolding recommend_similar_books_found [OF Some] by (rule s)
  qed
  show ?thesis
    unfolding recommend_by_genre_def recommend_by_author_def recommend_by_year_def
      recommend_bestsellers_def recommend_by_mood_def recommend_by_occasion_def Let_def
    using s sim by simp
qed

theorem recommendations_sorted_and_limited_witness:
  "(0::int) \<le> 2
   \<and> rating_descending (recommend_by_genre example_catalog ''Terror'' 2)
   \<and> length (recommend_by_genre example_catalog ''Terror'' 2) \<le> 2
   \<and> rating_descending (recommend_by_author example_catalog ''king'' 2)
   \<and> length (recommend_by_author example_catalog ''king'' 2) \<le> 2
   \<and> rating_descending (recommend_by_year example_catalog 1986 2)
   \<and> length (recommend_by_year example_catalog 1986 2) \<le> 2
   \<and> rating_descending (recommend_bestsellers example_catalog True 2)
   \<and> length (recommend_bestsellers example_catalog True 2) \<le> 2
   \<and> rating_descending (recommend_similar_books example_catalog ''it'' 2)
   \<and> length (recommend_similar_books example_catalog ''it'' 2) \<le> 2
   \<and> rating_descending (recommend_by_mood example_catalog ''triste'' (Some ''Terror'') 2)
   \<and> length (recommend_by_mood example_catalog ''triste'' (Some ''Terror'') 2) \<le> 2
   \<and> rating_descending (recommend_by_occasion example_catalog ''praia'' (Some ''Terror'') 2)
   \<and> length (recommend_by_occasion example_catalog ''praia'' (Some ''Terror'') 2) \<le> 2"
  using recommendations_sorted_and_limited
    [where limit = 2 and books = example_catalog and g = "''Terror''" and a = "''king''"
       and y = 1986 and flag = True and t = "''it''" and mood = "''triste''"
       and tg = "Some ''Terror''" and occasion = "''praia''"]
  by simp

lemma find_book_by_title_find:
  "find_book_by_title books t = List.find (\<lambda>b. contains (lower (title b)) (lower t)) books"
  by (induction books) simp_all

lemma contains_empty: "contains s []"
  by (induction s) simp_all

text \<open>
  Claim C10. \<open>find_book_by_title\<close> returns the first book in catalog order whose
  lower-cased title contains the lower-cased fragment. The empty fragment is contained in
  every title, so on a catalog that is not empty it resolves to the first book, and
  \<open>recommend_similar_books\<close> of the empty fragment is the ranking relative to that first
  book, not the empty list of the branch for a book that is not found.
\<close>

theorem empty_title_resolves_to_first_book:
  "find_book_by_title books t = List.find (\<lambda>b. contains (lower (title b)) (lower t)) books
   \<and> (books \<noteq> [] \<longrightarrow>
        find_book_by_title books [] = Some (hd books)
        \<and> recommend_similar_books books [] limit =
            slice_to (sorted_by_rating
              (filter (\<lambda>b. author b = author (hd books)) (similar_candidates books (hd books))
               @ filter (\<lambda>b. author b \<noteq> author (hd books)) (similar_candidates books (hd books))))
              limit)"
proof -
  have "find_book_by_title books [] = Some (hd books)" if "books \<noteq> []"
    using that by (cases books) (simp_all add: lower_def contains_empty)
  then show ?thesis
    using find_book_by_title_find recommend_similar_books_found by blast
qed


theorem empty_title_resolves_to_first_book_witness:
  "example_catalog \<noteq> []
   \<and> find_book_by_title example_catalog [] = Some book_it
   \<and> recommend_similar_books example_catalog [] 5 = [book_dracula, book_carrie]"
proof -
  have ne: "example_catalog \<noteq> []"
    by (simp add: example_catalog_def)
  have hd: "hd example_catalog = book_it"
    by (simp add: example_catalog_def)
  have "slice_to (sorted_by_rating
          (filter (\<lambda>b. author b = author book_it) (similar_candidates example_catalog book_it)
           @ filter (\<lambda>b. author b \<noteq> author book_it) (similar_candidates example_catalog book_it))) 5
        = [book_dracula, book_carrie]"
    using recommend_similar_books_found [OF example_find, of 5] example_similar by simp
  moreover have "find_book_by_title example_catalog [] = Some (hd example_catalog)
      \<and> recommend_similar_books example_catalog [] 5 =
          slice_to (sorted_by_rating
            (filter (\<lambda>b. author b = author (hd example_catalog))
               (similar_candidates example_catalog (hd example_catalog))
             @ filter (\<lambda>b. author b \<noteq> author (hd example_catalog))
               (similar_candidates example_catalog (hd example_catalog)))) 5"
    using empty_title_resolves_to_first_book [where books = example_catalog and limit = 5 and t = "[]"]
      ne
    by blast
  ultimately show ?thesis
    using ne by (simp add: hd)
qed

section \<open>Properties of the classification pipeline\<close>

lemma try_patterns_first_pattern:
  "try_patterns text n ps =
     (case first_pattern text ps of None \<Rightarrow> None | Some (p, m) \<Rightarrow> Some (on_match n text p m))"
  by (induction ps) (simp_all split: option.splits)

lemma try_intents_first_match:
  "try_intents text tbl =
     (case first_match text tbl of
        None \<Rightarrow> Inr \<lparr>name = ''unknown'', confidence = 0.0, entities = Map.empty\<rparr>
      | Some (n, p, m) \<Rightarrow> on_match n text p m)"
  by (induction tbl) (auto simp: try_patterns_first_pattern split: option.splits)

lemma first_pattern_None: "first_pattern text ps = None \<longleftrightarrow> (\<forall>p \<in> set ps. re_search p text = None)"
  by (induction ps) (auto split: option.splits)

lemma first_pattern_Some:
  "first_pattern text ps = Some (p, m) \<Longrightarrow>
     \<exists>k < length ps. ps ! k = p \<and> re_search p text = Some m \<and> (\<forall>j < k. re_search (ps ! j) text = None)"
proof (induction ps)
  case Nil
  then show ?case by simp
next
  case (Cons q qs)
  show ?case
  proof (cases "re_search q text")
    case None
    with Cons obtain k where k: "k < length qs" "qs ! k = p" "re_search p text = Some m"
      "\<forall>j < k. re_search (qs ! j) text = None"
      by auto
    have "\<forall>j < Suc k. re_search ((q # qs) ! j) text = None"
      using None k(4) by (auto simp: less_Suc_eq_0_disj)
    with k show ?thesis
      by (intro exI [of _ "Suc k"]) simp
  next
    case (Some m')
    with Cons.prems show ?thesis
      by (intro exI [of _ 0]) simp
  qed
qed

lemma first_match_None:
  "first_match text tbl = None \<longleftrightarrow> (\<forall>e \<in> set tbl. \<forall>p \<in> set (snd e). re_search p text = None)"
proof (induction tbl)
  case Nil
  then show ?case by simp
next
  case (Cons e tbl)
  obtain n ps where e: "e = (n, ps)"
    by (cases e)
  show ?case
  proof (cases "first_pattern text ps")
    case None
    with Cons e show ?thesis
      by (simp add: first_pattern_None [symmetric])
  next
    case (Some pm)
    then have "\<not> (\<forall>p \<in> set ps. re_search p text = None)"
      by (simp add: first_pattern_None [symmetric])
    with Some e show ?thesis
      by (auto split: prod.splits)
  qed
qed

lemma first_match_Some:
  "first_match text tbl = Some (n, p, m) \<Longrightarrow>
     \<exists>k < length tbl. fst (tbl ! k) = n \<and> p \<in> set (snd (tbl ! k)) \<and> re_search p text = Some m
       \<and> first_pattern text (snd (tbl ! k)) = Some (p, m)
       \<and> (\<forall>j < k. \<forall>q \<in> set (snd (tbl ! j)). re_search q text = None)"
proof (induction tbl)
  case Nil
  then show ?case by simp
next
  case (Cons e tbl)
  obtain n' ps where e: "e = (n', ps)"
    by (cases e)
  show ?case
  proof (cases "first_pattern text ps")
    case None
    with Cons e obtain k where k: "k < length tbl" "fst (tbl ! k) = n" "p \<in> set (snd (tbl ! k))"
      "re_search p text = Some m" "first_pattern text (snd (tbl ! k)) = Some (p, m)"
      "\<forall>j < k. \<forall>q \<in> set (snd (tbl ! j)). re_search q text = None"
      by auto
    have "\<forall>j < Suc k. \<forall>q \<in> set (snd ((e # tbl) ! j)). re_search q text = None"
      using None k(6) e by (auto simp: less_Suc_eq_0_disj first_pattern_None)
    with k show ?thesis
      by (intro exI [of _ "Suc k"]) simp
  next
    case (Some pm)
    with Cons.prems e have pm: "pm = (p, m)" "n' = n"
      by (auto split: prod.splits)
    from Some pm have fp: "first_pattern text ps = Some (p, m)"
      by simp
    from first_pattern_Some [OF fp] have "p \<in> set ps" "re_search p text = Some m"
      by auto
    with Some pm e show ?thesis
      by (intro exI [of _ 0]) simp
  qed
qed

lemma on_match_name: "on_match n text p m = Inr i \<Longrightarrow> name i = n"
  by (auto simp: on_match_def Let_def split: if_splits sum.splits)

lemma on_match_confidence:
  "on_match n text p m = Inr i \<Longrightarrow> confidence i = calculate_confidence text p"
  by (auto simp: on_match_def Let_def split: if_splits sum.splits)

lemma calculate_confidence_bounds:
  "0 \<le> calculate_confidence text pattern \<and> calculate_confidence text pattern \<le> 0.95"
  by (auto simp: calculate_confidence_def Let_def min_def split: option.splits)

lemma process_first_match:
  "process text =
     (case first_match (expand_synonyms (strip (lower text))) intent_patterns of
        None \<Rightarrow> Inr \<lparr>name = ''unknown'', confidence = 0.0, entities = Map.empty\<rparr>
      | Some (n, p, m) \<Rightarrow> on_match n (expand_synonyms (strip (lower text))) p m)"
  by (simp add: process_def try_intents_first_match)


lemma process_returns_first_matching_intent:
  assumes "process text = Inr i"
    and "\<exists>e \<in> set intent_patterns. \<exists>p \<in> set (snd e).
           re_search p (expand_synonyms (strip (lower text))) \<noteq> None"
  shows "\<exists>k < length intent_patterns.
           name i = fst (intent_patterns ! k)
           \<and> (\<exists>p \<in> set (snd (intent_patterns ! k)).
                 re_search p (expand_synonyms (strip (lower text))) \<noteq> None)
           \<and> (\<forall>j < k. \<forall>q \<in> set (snd (intent_patterns ! j)).
                 re_search q (expand_synonyms (strip (lower text))) = None)"
proof -
  let ?t = "expand_synonyms (strip (lower text))"
  from assms(2) have "first_match ?t intent_patterns \<noteq> None"
    by (simp add: first_match_None)
  then obtain n p m where fm: "first_match ?t intent_patterns = Some (n, p, m)"
    by auto
  with assms(1) have "on_match n ?t p m = Inr i"
    by (simp add: process_first_match)
  then have "name i = n"
    by (rule on_match_name)
  with first_match_Some [OF fm] show ?thesis
    by force
qed

text \<open>
  Claim C6. \<open>_calculate_confidence\<close> returns the fallback 0.3 when the pattern does not
  match and when the division by the length of the text fails; otherwise it returns
  \<open>min(0.95, 2 * matchLength / textLength)\<close>, plus 0.1 when the match starts within the
  first 30 percent of the text, capped at 0.95. The result lies between 0 and 0.95, and so
  does the confidence of every intent that \<open>process\<close> returns (0.0 for \<open>unknown\<close>).
\<close>

theorem confidence_formula_and_bounds:
  "(re_search pattern text = None \<longrightarrow> calculate_confidence text pattern = 0.3)
   \<and> (text = [] \<longrightarrow> calculate_confidence text pattern = 0.3)
   \<and> (\<forall>m. re_search pattern text = Some m \<and> text \<noteq> [] \<longrightarrow>
         calculate_confidence text pattern =
           min (min 0.95 (2 * real (length (group0 m)) / real (length text))
                + (if real (m_start m) < 0.3 * real (length text) then 0.1 else 0)) 0.95)
   \<and> 0 \<le> calculate_confidence text pattern \<and> calculate_confidence text pattern \<le> 0.95
   \<and> (\<forall>i. process utterance = Inr i \<longrightarrow> 0 \<le> confidence i \<and> confidence i \<le> 0.95)"
proof -
  have 1: "re_search pattern text = None \<longrightarrow> calculate_confidence text pattern = 0.3"
    by (simp add: calculate_confidence_def)
  have 2: "text = [] \<longrightarrow> calculate_confidence text pattern = 0.3"
    by (simp add: calculate_confidence_def split: option.splits)
  have 3: "\<forall>m. re_search pattern text = Some m \<and> text \<noteq> [] \<longrightarrow>
         calculate_confidence text pattern =
           min (min 0.95 (2 * real (length (group0 m)) / real (length text))
                + (if real (m_start m) < 0.3 * real (length text) then 0.1 else 0)) 0.95"
    by (auto simp: calculate_confidence_def Let_def mult.commute)
  have 4: "\<forall>i. process utterance = Inr i \<longrightarrow> 0 \<le> confidence i \<and> confidence i \<le> 0.95"
  proof (intro allI impI)
    fix i
    assume p: "process utterance = Inr i"
    let ?t = "expand_synonyms (strip (lower utterance))"
    show "0 \<le> confidence i \<and> confidence i \<le> 0.95"
    proof (cases "first_match ?t intent_patterns")
      case None
      with p show ?thesis
        by (auto simp: process_first_match)
    next
      case (Some r)
      obtain n q m where "r = (n, q, m)"
        by (cases r)
      with Some p have "on_match n ?t q m = Inr i"
        by (simp add: process_first_match)
      then have "confidence i = calculate_confidence ?t q"
        by (rule on_match_confidence)
      then show ?thesis
        using calculate_confidence_bounds [of ?t q] by simp
    qed
  qed
  from 1 2 3 4 calculate_confidence_bounds [of "text" pattern] show ?thesis
    by blast
qed

subsection \<open>The utterances of the claims\<close>

lemma text_estou_triste: "expand_synonyms (strip (lower ''estou triste'')) = ''estou triste''"
  by code_simp

lemma first_match_estou_triste:
  "first_match ''estou triste'' intent_patterns =
     Some (''recommend_by_mood'', snd (intent_patterns ! 6) ! 0,
           \<lparr>m_start = 0, group0 = ''estou triste'', m_groups = [(2, ''triste'')]\<rparr>)"
  by code_simp

lemma search_estou_triste:
  "re_search (snd (intent_patterns ! 6) ! 0) ''estou triste'' =
     Some \<lparr>m_start = 0, group0 = ''estou triste'', m_groups = [(2, ''triste'')]\<rparr>"
  by code_simp

lemma pattern_estou:
  "snd (intent_patterns ! 6) ! 0 =
     cat [Str ''estou '', Opt (Group 1 (Str ''me sentindo '')), Opt (Str ''muito ''),
          Group 2 (one_of [''triste'', ''feliz'', ''estressado'', ''ansioso'', ''deprimido'',
            ''animado'', ''bem'', ''mal''])]"
  by code_simp

lemma process_estou_triste_value:
  "process ''estou triste'' =
     Inr \<lparr>name = ''recommend_by_mood'', confidence = 0.95,
          entities = [''mood'' \<mapsto> Str_val ''estou triste'', ''target'' \<mapsto> Str_val ''Romance'']\<rparr>"
proof -
  have g: "0 < ngroups (snd (intent_patterns ! 6) ! 0)"
    by code_simp
  have s: "strip ''estou triste'' = ''estou triste''"
    by code_simp
  have m: "map_of mood_to_genre ''estou triste'' = None"
    by code_simp
  have c: "calculate_confidence ''estou triste'' (snd (intent_patterns ! 6) ! 0) = 0.95"
    by (simp add: calculate_confidence_def search_estou_triste)
  have e: "extract_entities ''recommend_by_mood'' ''estou triste''
             \<lparr>m_start = 0, group0 = ''estou triste'', m_groups = [(2, ''triste'')]\<rparr>
           = Inr [''mood'' \<mapsto> Str_val ''estou triste'', ''target'' \<mapsto> Str_val ''Romance'']"
    by (simp add: extract_entities_def match_group_def s m)
  show ?thesis
    by (simp add: process_first_match text_estou_triste first_match_estou_triste
        on_match_def g c e)
qed

lemma text_livros_de_2020: "expand_synonyms (strip (lower ''livros de 2020'')) = ''livros de 2020''"
  by code_simp

lemma first_match_livros_de_2020:
  "first_match ''livros de 2020'' intent_patterns =
     Some (''recommend_by_genre'', snd (intent_patterns ! 0) ! 12,
           \<lparr>m_start = 0, group0 = ''livros de'', m_groups = [(1, ''de'')]\<rparr>)"
  by code_simp

lemma search_livros_de_2020:
  "re_search (snd (intent_patterns ! 0) ! 12) ''livros de 2020'' =
     Some \<lparr>m_start = 0, group0 = ''livros de'', m_groups = [(1, ''de'')]\<rparr>"
  by code_simp

lemma process_livros_de_2020_value:
  "process ''livros de 2020'' =
     Inr \<lparr>name = ''recommend_by_genre'', confidence = 0.95,
          entities = [''target'' \<mapsto> Str_val ''de'']\<rparr>"
proof -
  have g: "0 < ngroups (snd (intent_patterns ! 0) ! 12)"
    by code_simp
  have s: "strip ''de'' = ''de''"
    by code_simp
  have c: "calculate_confidence ''livros de 2020'' (snd (intent_patterns ! 0) ! 12) = 0.95"
    by (simp add: calculate_confidence_def search_livros_de_2020)
  have e: "extract_entities ''recommend_by_genre'' ''livros de 2020''
             \<lparr>m_start = 0, group0 = ''livros de'', m_groups = [(1, ''de'')]\<rparr>
           = Inr [''target'' \<mapsto> Str_val ''de'']"
    by (simp add: extract_entities_def match_group_def s)
  show ?thesis
    by (simp add: process_first_match text_livros_de_2020 first_match_livros_de_2020
        on_match_def g c e del: One_nat_def)
qed

lemma year_pattern_is_shadowed:
  "re_search (snd (intent_patterns ! 3) ! 0) ''livros de 2020'' =
     Some \<lparr>m_start = 0, group0 = ''livros de 2020'', m_groups = [(1, ''2020'')]\<rparr>"
  by code_simp

lemma text_conhece: "expand_synonyms (strip (lower conhece_text)) = conhece_text"
  by code_simp

lemma first_match_conhece:
  "first_match conhece_text intent_patterns =
     Some (''recommend_by_author'', snd (intent_patterns ! 1) ! 7,
           \<lparr>m_start = 0, group0 = ''conhece '', m_groups = []\<rparr>)"
  by code_simp

lemma search_bestsellers_conhece:
  "re_search (snd (intent_patterns ! 4) ! 0) conhece_text =
     Some \<lparr>m_start = 9, group0 = ''bestsellers'', m_groups = []\<rparr>"
  by code_simp

lemma process_conhece_value: "process conhece_text = Inl AttributeError"
proof -
  have g: "0 < ngroups (snd (intent_patterns ! 1) ! 7)"
    by code_simp
  have e: "extract_entities ''recommend_by_author'' conhece_text
             \<lparr>m_start = 0, group0 = ''conhece '', m_groups = []\<rparr> = Inl AttributeError"
    by (simp add: extract_entities_def match_group_def)
  show ?thesis
    by (simp add: process_first_match text_conhece first_match_conhece on_match_def g e
        del: One_nat_def)
qed

text \<open>
  Claim C2 says that \<open>livros de 2020\<close> is classified as \<open>books_by_year\<close> with year 2020.
  The code returns \<open>recommend_by_genre\<close> with target \<open>de\<close>: the pattern
  \<open>livros (\w+)\<close> of \<open>recommend_by_genre\<close> comes first in the table and matches, so the
  pattern \<open>livros de (\d{4})\<close> of \<open>books_by_year\<close>, which matches the text as well, is
  never tried.
\<close>

theorem livros_de_2020_is_classified_by_genre:
  "process ''livros de 2020'' =
     Inr \<lparr>name = ''recommend_by_genre'', confidence = 0.95,
          entities = [''target'' \<mapsto> Str_val ''de'']\<rparr>
   \<and> fst (intent_patterns ! 3) = ''books_by_year''
   \<and> re_search (snd (intent_patterns ! 3) ! 0) ''livros de 2020'' =
       Some \<lparr>m_start = 0, group0 = ''livros de 2020'', m_groups = [(1, ''2020'')]\<rparr>"
proof -
  have "fst (intent_patterns ! 3) = ''books_by_year''"
    by code_simp
  with process_livros_de_2020_value year_pattern_is_shadowed show ?thesis
    by blast
qed

text \<open>
  Claim C4 says that \<open>estou triste\<close> is classified as \<open>recommend_by_mood\<close> with mood
  \<open>triste\<close> and target \<open>Romance\<close>. The code returns that intent and that target, but
  the mood is the whole match \<open>estou triste\<close>: group 1 of the pattern is the optional
  \<open>(me sentindo )?\<close>, which takes no part in the match, and the mood word is group 2.
\<close>

theorem estou_triste_mood_is_whole_match:
  "process ''estou triste'' =
     Inr \<lparr>name = ''recommend_by_mood'', confidence = 0.95,
          entities = [''mood'' \<mapsto> Str_val ''estou triste'', ''target'' \<mapsto> Str_val ''Romance'']\<rparr>"
  by (rule process_estou_triste_value)

text \<open>
  Claim C5 says that when patterns of two intents match, \<open>process\<close> returns the intent
  that comes first in the table. On the utterance of two lines \<open>conhece\<close>,
  \<open>bestsellers\<close> a pattern of \<open>recommend_by_author\<close> and a pattern of \<open>bestsellers\<close>
  match. The first match in table order is \<open>conhece (.+?)?\<close>, whose group takes no part
  (the dot does not match the newline), and \<open>match.group(1).strip()\<close> raises
  \<open>AttributeError\<close>: \<open>process\<close> returns no intent. Whenever \<open>process\<close> returns an
  intent, it is the first one in table order with a matching pattern
  (\<open>process_returns_first_matching_intent\<close>).
\<close>

theorem first_intent_raises_on_absent_group:
  "expand_synonyms (strip (lower conhece_text)) = conhece_text
   \<and> fst (intent_patterns ! 1) = ''recommend_by_author''
   \<and> re_search (snd (intent_patterns ! 1) ! 7) conhece_text =
       Some \<lparr>m_start = 0, group0 = ''conhece '', m_groups = []\<rparr>
   \<and> fst (intent_patterns ! 4) = ''bestsellers''
   \<and> re_search (snd (intent_patterns ! 4) ! 0) conhece_text =
       Some \<lparr>m_start = 9, group0 = ''bestsellers'', m_groups = []\<rparr>
   \<and> process conhece_text = Inl AttributeError"
proof -
  have "fst (intent_patterns ! 1) = ''recommend_by_author''"
    and "fst (intent_patterns ! 4) = ''bestsellers''"
    by code_simp+
  moreover have "re_search (snd (intent_patterns ! 1) ! 7) conhece_text =
       Some \<lparr>m_start = 0, group0 = ''conhece '', m_groups = []\<rparr>"
    by code_simp
  ultimately show ?thesis
    using text_conhece search_bestsellers_conhece process_conhece_value by blast
qed

subsection \<open>Witnesses for the general statements\<close>




lemma search_cult:
  "re_search (Str ''cult'') ''um livro cult'' = Some \<lparr>m_start = 9, group0 = ''cult'', m_groups = []\<rparr>"
  by code_simp

lemma search_cult_ola: "re_search (Str ''cult'') ''ola'' = None"
  by code_simp

theorem confidence_formula_and_bounds_witness:
  "re_search (Str ''cult'') ''ola'' = None
   \<and> calculate_confidence ''ola'' (Str ''cult'') = 0.3
   \<and> calculate_confidence [] (Str ''cult'') = 0.3
   \<and> re_search (Str ''cult'') ''um livro cult''
       = Some \<lparr>m_start = 9, group0 = ''cult'', m_groups = []\<rparr>
   \<and> calculate_confidence ''um livro cult'' (Str ''cult'') = 8 / 13
   \<and> 0 \<le> calculate_confidence ''um livro cult'' (Str ''cult'')
   \<and> calculate_confidence ''um livro cult'' (Str ''cult'') \<le> 0.95
   \<and> (\<exists>i. process ''estou triste'' = Inr i \<and> confidence i = 0.95
          \<and> 0 \<le> confidence i \<and> confidence i \<le> 0.95)"
  using confidence_formula_and_bounds [of "Str ''cult''" "''ola''" "''estou triste''"]
    confidence_formula_and_bounds [of "Str ''cult''" "[]" "''estou triste''"]
    confidence_formula_and_bounds [of "Str ''cult''" "''um livro cult''" "''estou triste''"]
    search_cult search_cult_ola process_estou_triste_value
  by simp

subsection \<open>Synonym expansion\<close>

text \<open>A text in which no synonym of the table occurs as a whole word is left unchanged.\<close>

lemma sub_walk_no_match:
  "search_from r (pos, prev, rest) = None \<Longrightarrow> sub_walk r repl (pos, prev, rest) 0 = rest"
proof (induction rest arbitrary: pos prev)
  case Nil
  then show ?case by simp
next
  case (Cons c cs)
  from Cons.prems have "match_at r (pos, prev, c # cs) = None"
    and "search_from r (Suc pos, Some c, cs) = None"
    by (auto split: option.splits)
  with Cons.IH show ?case
    by simp
qed

lemma re_sub_no_match: "re_search r t = None \<Longrightarrow> re_sub r repl t = t"
  by (simp add: re_search_def re_sub_def sub_walk_no_match)

lemma expand_genre_fixed:
  "\<forall>s \<in> set synonyms. re_search (word_pattern s) t = None \<Longrightarrow>
   fold (\<lambda>synonym u. re_sub (word_pattern synonym) main_genre u) synonyms t = t"
  by (induction synonyms) (simp_all add: re_sub_no_match)

lemma expand_table_fixed:
  "\<forall>e \<in> set tbl. \<forall>s \<in> set (snd e). re_search (word_pattern s) t = None \<Longrightarrow>
   fold (\<lambda>(main_genre, synonyms) u.
           fold (\<lambda>synonym u. re_sub (word_pattern synonym) main_genre u) synonyms u) tbl t = t"
  by (induction tbl) (auto simp: expand_genre_fixed)

lemma expand_synonyms_fixed:
  "\<forall>e \<in> set genre_synonyms. \<forall>s \<in> set (snd e). re_search (word_pattern s) t = None \<Longrightarrow>
   expand_synonyms t = t"
  unfolding expand_synonyms_def by (rule expand_table_fixed)

lemma expand_literatura: "expand_synonyms ''literatura'' = ''literatura brasileira''"
  by code_simp

lemma expand_literatura_brasileira:
  "expand_synonyms ''literatura brasileira'' = ''literatura brasileira brasileira''"
  by code_simp

lemma expand_enigma: "expand_synonyms ''enigma'' = misterio"
  by code_simp

lemma expand_misterio: "expand_synonyms misterio = ''thriller''"
  by code_simp

lemma misterio_not_thriller: "''thriller'' \<noteq> misterio"
  by code_simp

lemma expand_ficcao_cientifica:
  "expand_synonyms ficcao_cientifica
     = ''fic'' @ [c_cedil, a_tilde] @ ''o '' @ ficcao_cientifica @ '' '' @ ficcao_cientifica"
  by code_simp

lemma ficcao_cientifica_changed:
  "''fic'' @ [c_cedil, a_tilde] @ ''o '' @ ficcao_cientifica @ '' '' @ ficcao_cientifica
     \<noteq> ficcao_cientifica"
  by code_simp

lemma text_gosto_de_ficcao_cientifica:
  "first_match (expand_synonyms (strip (lower gosto_de_ficcao_cientifica))) intent_patterns = None"
  by code_simp

lemma process_gosto_de_ficcao_cientifica:
  "process gosto_de_ficcao_cientifica
     = Inr \<lparr>name = ''unknown'', confidence = 0.0, entities = Map.empty\<rparr>"
  by (simp add: process_first_match text_gosto_de_ficcao_cientifica)

text \<open>
  Claim C3 says that synonym expansion is idempotent: expanding an expanded text
  changes nothing. The code expands \<open>literatura\<close> to \<open>literatura brasileira\<close> and
  expands that to \<open>literatura brasileira brasileira\<close>: the table lists \<open>literatura\<close>
  as a synonym of the genre \<open>literatura brasileira\<close>, whose name contains it. In the same
  way \<open>enigma\<close> becomes \<open>misterio\<close> and then \<open>thriller\<close>, since the genre name
  \<open>misterio\<close> is also a synonym of \<open>thriller\<close>, and the genre name
  \<open>ficcao cientifica\<close>, whose two words are synonyms of itself, does not survive one
  expansion. The patterns of \<open>process\<close> for that genre name are matched after the
  expansion, so an utterance that asks for it by name is classified as \<open>unknown\<close>.
\<close>

theorem expand_synonyms_changes_expanded_text:
  "expand_synonyms ''literatura'' = ''literatura brasileira''
   \<and> expand_synonyms (expand_synonyms ''literatura'') = ''literatura brasileira brasileira''
   \<and> expand_synonyms (expand_synonyms ''literatura'') \<noteq> expand_synonyms ''literatura''
   \<and> expand_synonyms ''enigma'' = misterio
   \<and> expand_synonyms (expand_synonyms ''enigma'') = ''thriller''
   \<and> expand_synonyms (expand_synonyms ''enigma'') \<noteq> expand_synonyms ''enigma''
   \<and> expand_synonyms ficcao_cientifica \<noteq> ficcao_cientifica
   \<and> process gosto_de_ficcao_cientifica
       = Inr \<lparr>name = ''unknown'', confidence = 0.0, entities = Map.empty\<rparr>"
proof -
  have "expand_synonyms ficcao_cientifica \<noteq> ficcao_cientifica"
    by (simp only: expand_ficcao_cientifica ficcao_cientifica_changed not_False_eq_True)
  then show ?thesis
    using process_gosto_de_ficcao_cientifica
    by (simp add: expand_literatura expand_literatura_brasileira expand_enigma expand_misterio
        misterio_not_thriller)
qed

subsection \<open>The author normalizer\<close>

lemma best_author_loop_result:
  assumes "best_author_loop al ks (bm, br) = (bm', br')"
  shows "(bm' = bm \<and> br' = br \<and> (\<forall>k \<in> set ks. \<not> (br < ratio al k \<and> 0.7 < ratio al k)))
       \<or> (\<exists>i < length ks. bm' = Some (ks ! i) \<and> br' = ratio al (ks ! i) \<and> 0.7 < br' \<and> br < br'
            \<and> (\<forall>j < length ks. ratio al (ks ! j) \<le> br') \<and> (\<forall>j < i. ratio al (ks ! j) < br'))"
  using assms
proof (induction ks arbitrary: bm br)
  case Nil
  then show ?case by simp
next
  case (Cons k ks)
  show ?case
  proof (cases "br < ratio al k \<and> 0.7 < ratio al k")
    case True
    with Cons.prems have loop: "best_author_loop al ks (Some k, ratio al k) = (bm', br')"
      by simp
    from Cons.IH [OF loop] show ?thesis
    proof (elim disjE conjE exE)
      assume "bm' = Some k" "br' = ratio al k"
        "\<forall>k' \<in> set ks. \<not> (ratio al k < ratio al k' \<and> 0.7 < ratio al k')"
      with True have "\<forall>j < length (k # ks). ratio al ((k # ks) ! j) \<le> br'"
        by (auto simp: less_Suc_eq_0_disj not_less dest!: nth_mem) 
      with True \<open>bm' = Some k\<close> \<open>br' = ratio al k\<close> show ?thesis
        by (intro disjI2 exI [of _ 0]) simp
    next
      fix i
      assume i: "i < length ks" "bm' = Some (ks ! i)" "br' = ratio al (ks ! i)" "0.7 < br'"
        "ratio al k < br'" "\<forall>j < length ks. ratio al (ks ! j) \<le> br'"
        "\<forall>j < i. ratio al (ks ! j) < br'"
      have "\<forall>j < length (k # ks). ratio al ((k # ks) ! j) \<le> br'"
        using i(5,6) by (auto simp: less_Suc_eq_0_disj)
      moreover have "\<forall>j < Suc i. ratio al ((k # ks) ! j) < br'"
        using i(5,7) by (auto simp: less_Suc_eq_0_disj)
      ultimately show ?thesis
        using i True by (intro disjI2 exI [of _ "Suc i"]) auto
    qed
  next
    case False
    with Cons.prems have loop: "best_author_loop al ks (bm, br) = (bm', br')"
      by auto
    from Cons.IH [OF loop] show ?thesis
    proof (elim disjE conjE exE)
      assume "bm' = bm" "br' = br" "\<forall>k' \<in> set ks. \<not> (br < ratio al k' \<and> 0.7 < ratio al k')"
      with False show ?thesis
        by auto
    next
      fix i
      assume i: "i < length ks" "bm' = Some (ks ! i)" "br' = ratio al (ks ! i)" "0.7 < br'"
        "br < br'" "\<forall>j < length ks. ratio al (ks ! j) \<le> br'"
        "\<forall>j < i. ratio al (ks ! j) < br'"
      from False i(4,5) have kb: "ratio al k < br'"
        by auto
      have "\<forall>j < length (k # ks). ratio al ((k # ks) ! j) \<le> br'"
        using kb i(6) by (auto simp: less_Suc_eq_0_disj)
      moreover have "\<forall>j < Suc i. ratio al ((k # ks) ! j) < br'"
        using kb i(7) by (auto simp: less_Suc_eq_0_disj)
      ultimately show ?thesis
        using i by (intro disjI2 exI [of _ "Suc i"]) auto
    qed
  qed
qed

lemma find_variation_find:
  "find_variation al authors = map_option fst (List.find (\<lambda>e. al \<in> set (snd e)) authors)"
  by (induction authors) auto

lemma find_variation_None:
  "find_variation al authors = None \<longleftrightarrow> (\<forall>e \<in> set authors. al \<notin> set (snd e))"
  by (induction al authors rule: find_variation.induct) auto

lemma similarity_fallback:
  "(fst (best_author_loop al ks (None, 0)) = None \<longleftrightarrow> (\<forall>k \<in> set ks. ratio al k \<le> 0.7))
   \<and> (\<forall>a. fst (best_author_loop al ks (None, 0)) = Some a \<longrightarrow>
         (\<exists>i < length ks. ks ! i = a \<and> 0.7 < ratio al a
            \<and> (\<forall>j < length ks. ratio al (ks ! j) \<le> ratio al a)
            \<and> (\<forall>j < i. ratio al (ks ! j) < ratio al a)))"
proof -
  obtain bm' br' where l: "best_author_loop al ks (None, 0) = (bm', br')"
    by (cases "best_author_loop al ks (None, 0)")
  from best_author_loop_result [OF l] show ?thesis
  proof (elim disjE conjE exE)
    assume a: "bm' = None" "\<forall>k \<in> set ks. \<not> (0 < ratio al k \<and> 0.7 < ratio al k)"
    have "\<forall>k \<in> set ks. ratio al k \<le> 0.7"
    proof
      fix k assume "k \<in> set ks"
      with a(2) have "\<not> (0 < ratio al k \<and> 0.7 < ratio al k)"
        by blast
      then show "ratio al k \<le> 0.7"
        by (cases "0.7 < ratio al k") auto
    qed
    with a(1) l show ?thesis
      by simp
  next
    fix i
    assume i: "i < length ks" "bm' = Some (ks ! i)" "br' = ratio al (ks ! i)" "0.7 < br'"
      "\<forall>j < length ks. ratio al (ks ! j) \<le> br'" "\<forall>j < i. ratio al (ks ! j) < br'"
    have "\<not> (\<forall>k \<in> set ks. ratio al k \<le> 0.7)"
      using i(1,3,4) nth_mem [OF i(1)] by (auto simp: not_le intro!: bexI [of _ "ks ! i"])
    with i l show ?thesis
      by auto
  qed
qed

lemma find_best_author_match_cases:
  "(strip (lower inp) \<in> set (map fst famous_authors) \<longrightarrow>
      find_best_author_match inp = Some (strip (lower inp)))
   \<and> (strip (lower inp) \<notin> set (map fst famous_authors)
        \<and> (\<exists>e \<in> set famous_authors. strip (lower inp) \<in> set (snd e)) \<longrightarrow>
      find_best_author_match inp
        = map_option fst (List.find (\<lambda>e. strip (lower inp) \<in> set (snd e)) famous_authors))
   \<and> (strip (lower inp) \<notin> set (map fst famous_authors)
        \<and> (\<forall>e \<in> set famous_authors. strip (lower inp) \<notin> set (snd e)) \<longrightarrow>
      (find_best_author_match inp = None
         \<longleftrightarrow> (\<forall>k \<in> set (map fst famous_authors). ratio (strip (lower inp)) k \<le> 0.7))
      \<and> (\<forall>a. find_best_author_match inp = Some a \<longrightarrow>
            (\<exists>i < length (map fst famous_authors). map fst famous_authors ! i = a
               \<and> 0.7 < ratio (strip (lower inp)) a
               \<and> (\<forall>j < length (map fst famous_authors).
                     ratio (strip (lower inp)) (map fst famous_authors ! j) \<le> ratio (strip (lower inp)) a)
               \<and> (\<forall>j < i.
                     ratio (strip (lower inp)) (map fst famous_authors ! j) < ratio (strip (lower inp)) a))))"
proof -
  let ?al = "strip (lower inp)"
  let ?ks = "map fst famous_authors"
  have 1: "?al \<in> set ?ks \<longrightarrow> find_best_author_match inp = Some ?al"
    by (simp add: find_best_author_match_def)
  have 2: "?al \<notin> set ?ks \<and> (\<exists>e \<in> set famous_authors. ?al \<in> set (snd e)) \<longrightarrow>
      find_best_author_match inp
        = map_option fst (List.find (\<lambda>e. ?al \<in> set (snd e)) famous_authors)"
  proof
    assume a: "?al \<notin> set ?ks \<and> (\<exists>e \<in> set famous_authors. ?al \<in> set (snd e))"
    then have "find_variation ?al famous_authors \<noteq> None"
      by (simp add: find_variation_None)
    then obtain n where n: "find_variation ?al famous_authors = Some n"
      by auto
    with a have "find_best_author_match inp = find_variation ?al famous_authors"
      by (simp add: find_best_author_match_def)
    then show "find_best_author_match inp
        = map_option fst (List.find (\<lambda>e. ?al \<in> set (snd e)) famous_authors)"
      by (simp only: find_variation_find)
  qed
  have 3: "?al \<notin> set ?ks \<and> (\<forall>e \<in> set famous_authors. ?al \<notin> set (snd e)) \<longrightarrow>
      (find_best_author_match inp = None
         \<longleftrightarrow> (\<forall>k \<in> set ?ks. ratio ?al k \<le> 0.7))
      \<and> (\<forall>a. find_best_author_match inp = Some a \<longrightarrow>
            (\<exists>i < length ?ks. ?ks ! i = a \<and> 0.7 < ratio ?al a
               \<and> (\<forall>j < length ?ks. ratio ?al (?ks ! j) \<le> ratio ?al a)
               \<and> (\<forall>j < i. ratio ?al (?ks ! j) < ratio ?al a)))"
  proof
    assume a: "?al \<notin> set ?ks \<and> (\<forall>e \<in> set famous_authors. ?al \<notin> set (snd e))"
    then have "find_variation ?al famous_authors = None"
      by (simp add: find_variation_None)
    with a have eq: "find_best_author_match inp
        = fst (best_author_loop ?al ?ks (None, 0))"
      by (simp add: find_best_author_match_def)
    show "(find_best_author_match inp = None
         \<longleftrightarrow> (\<forall>k \<in> set ?ks. ratio ?al k \<le> 0.7))
      \<and> (\<forall>a. find_best_author_match inp = Some a \<longrightarrow>
            (\<exists>i < length ?ks. ?ks ! i = a \<and> 0.7 < ratio ?al a
               \<and> (\<forall>j < length ?ks. ratio ?al (?ks ! j) \<le> ratio ?al a)
               \<and> (\<forall>j < i. ratio ?al (?ks ! j) < ratio ?al a)))"
      unfolding eq by (rule similarity_fallback)
  qed
  from 1 2 3 show ?thesis
    by blast
qed

lemma match_king: "find_best_author_match ''king'' = Some ''stephen king''"
  by code_simp

lemma match_xyzabc123: "find_best_author_match ''xyzabc123'' = None"
  by code_simp

text \<open>
  Claim C7. \<open>_find_best_author_match\<close> lower-cases and strips the fragment and resolves
  it in this order: (1) a canonical name equal to it; (2) otherwise the canonical name of
  the first table entry that lists it as an alias; (3) otherwise the canonical name with
  the highest similarity ratio, when that ratio exceeds 0.7, the first in table order
  among equal ratios, and none when no ratio exceeds 0.7. In particular \<open>king\<close> resolves
  to \<open>stephen king\<close> and \<open>xyzabc123\<close> to none.
\<close>

theorem author_normalizer_resolution_order:
  "(strip (lower inp) \<in> set (map fst famous_authors) \<longrightarrow>
      find_best_author_match inp = Some (strip (lower inp)))
   \<and> (strip (lower inp) \<notin> set (map fst famous_authors)
        \<and> (\<exists>e \<in> set famous_authors. strip (lower inp) \<in> set (snd e)) \<longrightarrow>
      find_best_author_match inp
        = map_option fst (List.find (\<lambda>e. strip (lower inp) \<in> set (snd e)) famous_authors))
   \<and> (strip (lower inp) \<notin> set (map fst famous_authors)
        \<and> (\<forall>e \<in> set famous_authors. strip (lower inp) \<notin> set (snd e)) \<longrightarrow>
      (find_best_author_match inp = None
         \<longleftrightarrow> (\<forall>k \<in> set (map fst famous_authors). ratio (strip (lower inp)) k \<le> 0.7))
      \<and> (\<forall>a. find_best_author_match inp = Some a \<longrightarrow>
            (\<exists>i < length (map fst famous_authors). map fst famous_authors ! i = a
               \<and> 0.7 < ratio (strip (lower inp)) a
               \<and> (\<forall>j < length (map fst famous_authors).
                     ratio (strip (lower inp)) (map fst famous_authors ! j)
                       \<le> ratio (strip (lower inp)) a)
               \<and> (\<forall>j < i.
                     ratio (strip (lower inp)) (map fst famous_authors ! j)
                       < ratio (strip (lower inp)) a))))
   \<and> find_best_author_match ''king'' = Some ''stephen king''
   \<and> find_best_author_match ''xyzabc123'' = None"
  using find_best_author_match_cases [of inp] match_king match_xyzabc123
  by blast

lemma key_stephen_king: "strip (lower ''Stephen King'') \<in> set (map fst famous_authors)"
  by code_simp

lemma strip_lower_stephen_king: "strip (lower ''Stephen King'') = ''stephen king''"
  by code_simp

lemma alias_king:
  "strip (lower ''King'') \<notin> set (map fst famous_authors)
   \<and> list_ex (\<lambda>e. strip (lower ''King'') \<in> set (snd e)) famous_authors
   \<and> map_option fst (List.find (\<lambda>e. strip (lower ''King'') \<in> set (snd e)) famous_authors)
       = Some ''stephen king''"
  by code_simp

lemma no_alias_xyzabc123:
  "strip (lower ''xyzabc123'') \<notin> set (map fst famous_authors)
   \<and> list_all (\<lambda>e. strip (lower ''xyzabc123'') \<notin> set (snd e)) famous_authors
   \<and> list_all (\<lambda>k. ratio (strip (lower ''xyzabc123'')) k \<le> 0.7) (map fst famous_authors)"
  by code_simp

theorem author_normalizer_resolution_order_witness:
  "strip (lower ''Stephen King'') \<in> set (map fst famous_authors)
   \<and> find_best_author_match ''Stephen King'' = Some ''stephen king''
   \<and> strip (lower ''King'') \<notin> set (map fst famous_authors)
   \<and> list_ex (\<lambda>e. strip (lower ''King'') \<in> set (snd e)) famous_authors
   \<and> find_best_author_match ''King'' = Some ''stephen king''
   \<and> strip (lower ''xyzabc123'') \<notin> set (map fst famous_authors)
   \<and> list_all (\<lambda>e. strip (lower ''xyzabc123'') \<notin> set (snd e)) famous_authors
   \<and> list_all (\<lambda>k. ratio (strip (lower ''xyzabc123'')) k \<le> 0.7) (map fst famous_authors)
   \<and> find_best_author_match ''xyzabc123'' = None
   \<and> find_best_author_match ''stephen kin'' = Some ''stephen king''
   \<and> ratio ''stephen kin'' ''stephen king'' = 22 / 23"
proof -
  have 1: "find_best_author_match ''Stephen King'' = Some ''stephen king''"
    using author_normalizer_resolution_order [of "''Stephen King''"] key_stephen_king
    by (simp only: strip_lower_stephen_king)
  have 2: "find_best_author_match ''King'' = Some ''stephen king''"
  proof -
    from alias_king have "\<exists>e \<in> set famous_authors. strip (lower ''King'') \<in> set (snd e)"
      by (simp only: list_ex_iff)
    with alias_king author_normalizer_resolution_order [of "''King''"] show ?thesis
      by metis
  qed
  have 3: "find_best_author_match ''xyzabc123'' = None"
  proof -
    from no_alias_xyzabc123
    have "\<forall>e \<in> set famous_authors. strip (lower ''xyzabc123'') \<notin> set (snd e)"
      and "\<forall>k \<in> set (map fst famous_authors). ratio (strip (lower ''xyzabc123'')) k \<le> 0.7"
      by (simp_all add: list_all_iff)
    with no_alias_xyzabc123 author_normalizer_resolution_order [of "''xyzabc123''"] show ?thesis
      by blast
  qed
  have 4: "find_best_author_match ''stephen kin'' = Some ''stephen king''
      \<and> ratio ''stephen kin'' ''stephen king'' = 22 / 23"
    by code_simp
  from 1 2 3 4 key_stephen_king alias_king no_alias_xyzabc123 show ?thesis
    by blast
qed

end
